theory Spec2Isabelle
  imports Complex_Main "HOL-Library.Sublist"
begin

section \<open>Python values of the two scripts\<close>

text \<open>
  A Python \<open>str\<close> is a sequence of Unicode code points and \<open>len\<close> counts code points, so a
  string is a list of code points. \<open>py\<close> turns an ASCII literal into such a string.
\<close>

type_synonym pystr = "nat list"

definition py :: "string \<Rightarrow> pystr" where
  "py s = map of_char s"

datatype py_error =
  RuntimeError | ZeroDivisionError | OverflowError | TypeError | ValueError

text \<open>
  A key of a JSON object is absent, maps to \<open>null\<close>, or maps to a value of the type the
  API documents for it. \<open>d.get(k)\<close> is \<open>None\<close> in the first two cases, \<open>d.get(k, default)\<close>
  only in the second.
\<close>

datatype 'a field = Absent | Null | Val 'a

definition dict_get :: "'a field \<Rightarrow> 'a option" where
  "dict_get f = (case f of Absent \<Rightarrow> None | Null \<Rightarrow> None | Val v \<Rightarrow> Some v)"

definition dict_get_default :: "'a field \<Rightarrow> 'a \<Rightarrow> 'a option" where
  "dict_get_default f d = (case f of Absent \<Rightarrow> Some d | Null \<Rightarrow> None | Val v \<Rightarrow> Some v)"

text \<open>Truthiness of an optional bool and string (\<open>None\<close> is falsy).\<close>

definition truthy_bool :: "bool option \<Rightarrow> bool" where
  "truthy_bool b = (case b of None \<Rightarrow> False | Some v \<Rightarrow> v)"

definition truthy_str :: "pystr option \<Rightarrow> bool" where
  "truthy_str s = (case s of None \<Rightarrow> False | Some v \<Rightarrow> v \<noteq> [])"

section \<open>Numbers\<close>

text \<open>
  A JSON number is decoded to a Python \<open>int\<close>, of any size, or to a \<open>float\<close>: a binary64
  value, an infinity or a NaN. A finite float is given by its exact value, a rational; the
  two zeros are one value, since they are equal in every test the scripts make and no
  division by a zero is ever carried out.
\<close>

datatype pyfloat = Finite rat | PosInf | NegInf | NaN

datatype pynum = PyInt int | PyFloat pyfloat

text \<open>The nearest integer, a tie going to the even one.\<close>

definition round_half_even :: "rat \<Rightarrow> int" where
  "round_half_even x =
     (let f = \<lfloor>x\<rfloor>; r = x - of_int f
      in if r < 1 / 2 then f
         else if 1 / 2 < r then f + 1
         else if even f then f else f + 1)"

text \<open>
  Rounding a rational to binary64, to nearest with ties to even: \<open>pow2 e\<close> is \<open>2\<close> to the
  power \<open>e\<close>, \<open>bits n\<close> the number of binary digits of \<open>n\<close>, \<open>ilog2 a\<close> the exponent \<open>e\<close>
  with \<open>pow2 e \<le> a < pow2 (e + 1)\<close>. The result is a multiple of \<open>pow2 (e - 52)\<close> (53
  significant bits), of \<open>pow2 (- 1074)\<close> below the normal range, and an infinity from
  \<open>pow2 1024\<close> on.
\<close>

definition pow2 :: "int \<Rightarrow> rat" where
  "pow2 e = (if 0 \<le> e then 2 ^ nat e else 1 / 2 ^ nat (- e))"

fun bits :: "nat \<Rightarrow> nat" where
  "bits n = (if n = 0 then 0 else Suc (bits (n div 2)))"

declare bits.simps [simp del]

definition ilog2 :: "rat \<Rightarrow> int" where
  "ilog2 a =
     (if 1 \<le> a then int (bits (nat \<lfloor>a\<rfloor>)) - 1
      else (let k = int (bits (nat \<lfloor>1 / a\<rfloor>)) - 1
            in if a = pow2 (- k) then - k else - k - 1))"

definition f64_round :: "rat \<Rightarrow> pyfloat" where
  "f64_round x =
     (if x = 0 then Finite 0
      else (let a = \<bar>x\<bar>;
                e = max (ilog2 a) (- 1022);
                q = pow2 (e - 52);
                r = of_int (round_half_even (a / q)) * q
            in if pow2 1024 \<le> r then (if 0 < x then PosInf else NegInf)
               else Finite (if 0 < x then r else - r)))"

text \<open>
  \<open>float(i)\<close> as arithmetic between an \<open>int\<close> and a \<open>float\<close> converts the \<open>int\<close>: correctly
  rounded, \<open>OverflowError\<close> when the \<open>int\<close> is too large.
\<close>

definition int_to_float :: "int \<Rightarrow> py_error + pyfloat" where
  "int_to_float i =
     (case f64_round (of_int i) of
        Finite r \<Rightarrow> Inr (Finite r)
      | PosInf \<Rightarrow> Inl OverflowError
      | NegInf \<Rightarrow> Inl OverflowError
      | NaN \<Rightarrow> Inl OverflowError)"

text \<open>
  Division and multiplication of two floats. Python raises \<open>ZeroDivisionError\<close> for a zero
  divisor; a result too large is an infinity, with no error.
\<close>

fun fdiv :: "pyfloat \<Rightarrow> pyfloat \<Rightarrow> py_error + pyfloat" where
  "fdiv x (Finite b) =
     (if b = 0 then Inl ZeroDivisionError
      else (case x of
              Finite a \<Rightarrow> Inr (f64_round (a / b))
            | PosInf \<Rightarrow> Inr (if 0 < b then PosInf else NegInf)
            | NegInf \<Rightarrow> Inr (if 0 < b then NegInf else PosInf)
            | NaN \<Rightarrow> Inr NaN))"
| "fdiv x PosInf = (case x of Finite a \<Rightarrow> Inr (Finite 0) | PosInf \<Rightarrow> Inr NaN
                     | NegInf \<Rightarrow> Inr NaN | NaN \<Rightarrow> Inr NaN)"
| "fdiv x NegInf = (case x of Finite a \<Rightarrow> Inr (Finite 0) | PosInf \<Rightarrow> Inr NaN
                     | NegInf \<Rightarrow> Inr NaN | NaN \<Rightarrow> Inr NaN)"
| "fdiv x NaN = Inr NaN"

fun fmul :: "pyfloat \<Rightarrow> pyfloat \<Rightarrow> pyfloat" where
  "fmul (Finite a) (Finite b) = f64_round (a * b)"
| "fmul (Finite a) PosInf = (if a = 0 then NaN else if 0 < a then PosInf else NegInf)"
| "fmul (Finite a) NegInf = (if a = 0 then NaN else if 0 < a then NegInf else PosInf)"
| "fmul PosInf (Finite b) = (if b = 0 then NaN else if 0 < b then PosInf else NegInf)"
| "fmul NegInf (Finite b) = (if b = 0 then NaN else if 0 < b then NegInf else PosInf)"
| "fmul PosInf PosInf = PosInf"
| "fmul PosInf NegInf = NegInf"
| "fmul NegInf PosInf = NegInf"
| "fmul NegInf NegInf = PosInf"
| "fmul NaN y = NaN"
| "fmul x NaN = NaN"

text \<open>
  \<open>x / y\<close> on numbers, always a float. Two ints give the correctly rounded quotient, or
  \<open>OverflowError\<close> when it is too large for a float; otherwise the int operand is converted
  and the floats are divided.
\<close>

definition py_truediv :: "pynum \<Rightarrow> pynum \<Rightarrow> py_error + pyfloat" where
  "py_truediv x y =
     (case (x, y) of
        (PyInt a, PyInt b) \<Rightarrow>
          if b = 0 then Inl ZeroDivisionError
          else (case f64_round (of_int a / of_int b) of
                  Finite r \<Rightarrow> Inr (Finite r)
                | PosInf \<Rightarrow> Inl OverflowError
                | NegInf \<Rightarrow> Inl OverflowError
                | NaN \<Rightarrow> Inl OverflowError)
      | (PyInt a, PyFloat g) \<Rightarrow>
          (case int_to_float a of Inl e \<Rightarrow> Inl e | Inr f \<Rightarrow> fdiv f g)
      | (PyFloat f, PyInt b) \<Rightarrow>
          (case int_to_float b of Inl e \<Rightarrow> Inl e | Inr g \<Rightarrow> fdiv f g)
      | (PyFloat f, PyFloat g) \<Rightarrow> fdiv f g)"

text \<open>
  The expression \<open>(score / points) * 100\<close> of lines 115 and 148, and \<open>score / points * 100\<close>
  of the simpler script: the float quotient times \<open>100.0\<close>.
\<close>

definition percentage :: "pynum \<Rightarrow> pynum \<Rightarrow> py_error + pyfloat" where
  "percentage score points =
     (case py_truediv score points of
        Inl e \<Rightarrow> Inl e
      | Inr q \<Rightarrow> Inr (fmul q (Finite 100)))"

text \<open>
  \<open>x <= y\<close> and \<open>x < y\<close> on numbers. Python compares an \<open>int\<close> with a \<open>float\<close> by their
  exact values; every comparison with a NaN is false.
\<close>

fun fle :: "pyfloat \<Rightarrow> pyfloat \<Rightarrow> bool" where
  "fle NaN y = False"
| "fle x NaN = False"
| "fle NegInf y = True"
| "fle x PosInf = True"
| "fle (Finite a) (Finite b) = (a \<le> b)"
| "fle PosInf y = False"
| "fle x NegInf = False"

definition exact :: "pynum \<Rightarrow> pyfloat" where
  "exact x = (case x of PyInt i \<Rightarrow> Finite (of_int i) | PyFloat f \<Rightarrow> f)"

definition py_le :: "pynum \<Rightarrow> pynum \<Rightarrow> bool" where
  "py_le x y = fle (exact x) (exact y)"

definition py_lt :: "pynum \<Rightarrow> pynum \<Rightarrow> bool" where
  "py_lt x y = (fle (exact x) (exact y) \<and> \<not> fle (exact y) (exact x))"

text \<open>Truthiness of an optional number: \<open>None\<close> and the zeros are falsy.\<close>

definition truthy_num :: "pynum option \<Rightarrow> bool" where
  "truthy_num x =
     (case x of
        None \<Rightarrow> False
      | Some (PyInt i) \<Rightarrow> i \<noteq> 0
      | Some (PyFloat f) \<Rightarrow> f \<noteq> Finite 0)"

text \<open>
  \<open>round(x, 2)\<close> of a float: the exact value rounded to the nearest multiple of \<open>1/100\<close>,
  ties to even, and that decimal converted back to a float; an infinity or a NaN is
  returned as it is.
\<close>

definition py_round2 :: "pyfloat \<Rightarrow> pyfloat" where
  "py_round2 x =
     (case x of
        Finite r \<Rightarrow> f64_round (of_int (round_half_even (r * 100)) / 100)
      | PosInf \<Rightarrow> PosInf
      | NegInf \<Rightarrow> NegInf
      | NaN \<Rightarrow> NaN)"

section \<open>Dates\<close>

text \<open>
  A \<open>datetime\<close> is offset-aware, a point of the UTC time line, or offset-less (naive), a
  point of a wall clock. Python orders two of the same kind and raises \<open>TypeError\<close> on
  comparing one of each. \<open>dt_value\<close> is the position on the line, whichever line it is.
\<close>

datatype datetime = Naive int | Aware int

definition dt_le :: "datetime \<Rightarrow> datetime \<Rightarrow> py_error + bool" where
  "dt_le x y =
     (case (x, y) of
        (Naive a, Naive b) \<Rightarrow> Inr (a \<le> b)
      | (Aware a, Aware b) \<Rightarrow> Inr (a \<le> b)
      | (Naive a, Aware b) \<Rightarrow> Inl TypeError
      | (Aware a, Naive b) \<Rightarrow> Inl TypeError)"


definition same_kind :: "datetime \<Rightarrow> datetime \<Rightarrow> bool" where
  "same_kind x y =
     (case (x, y) of
        (Naive a, Naive b) \<Rightarrow> True
      | (Aware a, Aware b) \<Rightarrow> True
      | (Naive a, Aware b) \<Rightarrow> False
      | (Aware a, Naive b) \<Rightarrow> False)"

section \<open>Data model\<close>

record submission =
  s_missing :: "bool field"
  s_late :: "bool field"
  s_score :: "pynum field"

record assignment =
  a_id :: "int field"
  a_name :: "pystr field"
  a_points_possible :: "pynum field"
  a_due_at :: "pystr field"
  a_grading_period_id :: "int field"
  a_submission :: "submission field"
  a_html_url :: "pystr field"

text \<open>\<open>{}\<close>, the dictionary with no key, which \<open>a.get("submission") or {}\<close> falls back to.\<close>

definition empty_submission :: submission where
  "empty_submission = \<lparr>s_missing = Absent, s_late = Absent, s_score = Absent\<rparr>"

text \<open>
  \<open>a.get("submission") or {}\<close>: a submission that is absent, \<open>null\<close> or an empty dictionary
  gives the empty dictionary, any other submission itself.
\<close>

definition submission_or_empty :: "assignment \<Rightarrow> submission" where
  "submission_or_empty a =
     (case dict_get (a_submission a) of None \<Rightarrow> empty_submission | Some s \<Rightarrow> s)"

section \<open>Core filtering logic (canvas\_test.py)\<close>

text \<open>
  \<open>isoparse\<close> of \<open>dateutil\<close> is a parameter: it returns a \<open>datetime\<close> or raises.

  \<open>any_in_range d ranges\<close> is \<open>any(s <= d <= e for s, e in ranges)\<close>: the ranges in
  order, \<open>d <= e\<close> evaluated only when \<open>s <= d\<close> holds, the first range holding \<open>d\<close> ending
  the search and the first comparison that raises ending it with the error.
\<close>

fun any_in_range :: "datetime \<Rightarrow> (datetime \<times> datetime) list \<Rightarrow> py_error + bool" where
  "any_in_range d [] = Inr False"
| "any_in_range d ((s, e) # ranges) =
     (case dt_le s d of
        Inl x \<Rightarrow> Inl x
      | Inr lower \<Rightarrow>
          if \<not> lower then any_in_range d ranges
          else (case dt_le d e of
                  Inl x \<Rightarrow> Inl x
                | Inr upper \<Rightarrow> if upper then Inr True else any_in_range d ranges))"

text \<open>
  \<open>belongs\<close> is the value of the variable \<open>belongs\<close> when line 107 tests it: membership of
  the grading period id in \<open>period_ids\<close>, then the fallback on the due date, in which an
  error of the parse or of a comparison is caught and leaves \<open>belongs\<close> as it was.
\<close>

definition belongs ::
  "(pystr \<Rightarrow> py_error + datetime) \<Rightarrow> assignment \<Rightarrow> int set \<Rightarrow> (datetime \<times> datetime) list
     \<Rightarrow> bool" where
  "belongs isoparse a period_ids ranges =
     (let gp = dict_get (a_grading_period_id a);
          b = (case gp of None \<Rightarrow> False | Some g \<Rightarrow> g \<in> period_ids)
      in if \<not> b \<and> ranges \<noteq> [] then
           (let due = dict_get (a_due_at a)
            in if truthy_str due then
                 (case isoparse (the due) of
                    Inl x \<Rightarrow> b
                  | Inr d \<Rightarrow>
                      (case any_in_range d ranges of
                         Inl x \<Rightarrow> b
                       | Inr found \<Rightarrow> found))
               else b)
         else b)"

definition should_include_assignment ::
  "(pystr \<Rightarrow> py_error + datetime) \<Rightarrow> assignment \<Rightarrow> int set \<Rightarrow> (datetime \<times> datetime) list
     \<Rightarrow> pynum \<Rightarrow> py_error + bool" where
  "should_include_assignment isoparse a period_ids ranges low_score_threshold_percent =
     (let sub = submission_or_empty a;
          missing = truthy_bool (dict_get (s_missing sub));
          score = dict_get (s_score sub);
          points = dict_get (a_points_possible a)
      in if \<not> belongs isoparse a period_ids ranges then Inr False
         else if missing then Inr True
         else if score \<noteq> None \<and> truthy_num points then
           (case percentage (the score) (the points) of
              Inl x \<Rightarrow> Inr False
            | Inr v \<Rightarrow> Inr (py_le (PyFloat v) low_score_threshold_percent))
         else Inr False)"

text \<open>The default of the parameter \<open>low_score_threshold_percent\<close>, \<open>50.0\<close>.\<close>

definition default_low_score_threshold_percent :: pynum where
  "default_low_score_threshold_percent = PyFloat (Finite 50)"

section \<open>Structured output (canvas\_test.py)\<close>

record course =
  c_id :: int
  c_name :: "pystr field"

text \<open>The dictionary \<open>_assignment_to_record\<close> returns: every key is present, a value may be \<open>None\<close>.\<close>

record report_record =
  r_course_id :: "int option"
  r_course_name :: "pystr option"
  r_assignment_id :: "int option"
  r_assignment_name :: "pystr option"
  r_status :: pystr
  r_score :: "pynum option"
  r_points_possible :: "pynum option"
  r_percent :: "pyfloat option"
  r_due_at :: "pystr option"
  r_url :: "pystr option"

definition assignment_to_record :: "course \<Rightarrow> assignment \<Rightarrow> py_error + report_record" where
  "assignment_to_record c a =
     (let sub = submission_or_empty a;
          name = dict_get_default (a_name a) (py ''Unnamed Assignment'');
          score = dict_get (s_score sub);
          pts = dict_get (a_points_possible a);
          percent = (if score \<noteq> None \<and> truthy_num pts then
                       (case percentage (the score) (the pts) of
                          Inl x \<Rightarrow> None
                        | Inr v \<Rightarrow> Some (py_round2 v))
                     else None);
          status = (if truthy_bool (dict_get (s_missing sub)) then py ''missing''
                    else if truthy_bool (dict_get (s_late sub)) then py ''late''
                    else py ''low_score'')
      in Inr \<lparr>r_course_id = Some (c_id c),
               r_course_name = dict_get_default (c_name c) (py ''Unnamed Course''),
               r_assignment_id = dict_get (a_id a),
               r_assignment_name = name,
               r_status = status,
               r_score = score,
               r_points_possible = pts,
               r_percent = percent,
               r_due_at = dict_get (a_due_at a),
               r_url = dict_get (a_html_url a)\<rparr>)"

section \<open>Discord webhook integration (canvas\_test.py)\<close>

text \<open>\<open>sep.join(xs)\<close>; the newline is code point 10.\<close>

fun str_join :: "pystr \<Rightarrow> pystr list \<Rightarrow> pystr" where
  "str_join sep [] = []"
| "str_join sep [x] = x"
| "str_join sep (x # y # ys) = x @ sep @ str_join sep (y # ys)"

definition newline :: pystr where
  "newline = [10]"

text \<open>
  The loop of \<open>_chunk_lines\<close> over the remaining lines, with the variables \<open>chunks\<close>,
  \<open>current\<close> and \<open>current_len\<close>, and the test after the loop.
\<close>

fun chunk_loop :: "int \<Rightarrow> pystr list \<Rightarrow> pystr list \<Rightarrow> pystr list \<Rightarrow> int \<Rightarrow> pystr list" where
  "chunk_loop max_len [] chunks current current_len =
     (if current \<noteq> [] then chunks @ [str_join newline current] else chunks)"
| "chunk_loop max_len (line # lines) chunks current current_len =
     (let line_len = int (length line) + 1
      in if current \<noteq> [] \<and> current_len + line_len > max_len
         then chunk_loop max_len lines (chunks @ [str_join newline current]) [line] line_len
         else chunk_loop max_len lines chunks (current @ [line]) (current_len + line_len))"

definition chunk_lines :: "pystr list \<Rightarrow> int \<Rightarrow> pystr list" where
  "chunk_lines lines max_len = chunk_loop max_len lines [] [] 0"

text \<open>
  The same loop keeping, for every chunk, the list of lines joined into it. It is used to
  state what a chunk is made of, and computes nothing the source does not.
\<close>

fun group_loop ::
  "int \<Rightarrow> pystr list \<Rightarrow> pystr list list \<Rightarrow> pystr list \<Rightarrow> int \<Rightarrow> pystr list list" where
  "group_loop max_len [] groups current current_len =
     (if current \<noteq> [] then groups @ [current] else groups)"
| "group_loop max_len (line # lines) groups current current_len =
     (let line_len = int (length line) + 1
      in if current \<noteq> [] \<and> current_len + line_len > max_len
         then group_loop max_len lines (groups @ [current]) [line] line_len
         else group_loop max_len lines groups (current @ [line]) (current_len + line_len))"

definition chunk_groups :: "pystr list \<Rightarrow> int \<Rightarrow> pystr list list" where
  "chunk_groups lines max_len = group_loop max_len lines [] [] 0"

text \<open>The size the chunker counts for a list of lines: \<open>len(line) + 1\<close> for each.\<close>

definition counted_len :: "pystr list \<Rightarrow> int" where
  "counted_len ls = sum_list (map (\<lambda>l. int (length l) + 1) ls)"

text \<open>
  A chunk respects \<open>max_len\<close> when it has a line and its counted size is within
  \<open>max_len\<close>, unless it is one line that is too long by itself.
\<close>

definition chunk_ok :: "int \<Rightarrow> pystr list \<Rightarrow> bool" where
  "chunk_ok m g =
     (g \<noteq> [] \<and> (counted_len g \<le> m \<or> (\<exists>l. g = [l] \<and> m < int (length l) + 1)))"

text \<open>
  \<open>str(v)\<close> inside an f-string for a value that is a string or \<open>None\<close>. The format
  \<open>{percent:.2f}\<close> of a number is the parameter \<open>fmt2\<close>.
\<close>

definition fstr :: "pystr option \<Rightarrow> pystr" where
  "fstr v = (case v of None \<Rightarrow> py ''None'' | Some s \<Rightarrow> s)"

definition format_percent :: "(pyfloat \<Rightarrow> pystr) \<Rightarrow> report_record \<Rightarrow> pystr" where
  "format_percent fmt2 r =
     (case r_percent r of None \<Rightarrow> py ''N/A'' | Some percent \<Rightarrow> fmt2 percent @ py ''%'')"

text \<open>\<open>s.replace("_", " ")\<close>; the em dash of the line is code point 8212.\<close>

definition replace_underscore :: "pystr \<Rightarrow> pystr" where
  "replace_underscore s = map (\<lambda>c. if c = 95 then 32 else c) s"

definition format_assignment_line :: "(pyfloat \<Rightarrow> pystr) \<Rightarrow> report_record \<Rightarrow> pystr" where
  "format_assignment_line fmt2 r =
     (let status = replace_underscore (r_status r);
          course = r_course_name r;
          name = r_assignment_name r;
          percent = format_percent fmt2 r;
          url = r_url r;
          line = py ''**'' @ fstr course @ py ''** '' @ [8212] @ py '' '' @ fstr name
                   @ py '' ('' @ status @ py '', '' @ percent @ py '')''
      in if truthy_str url then line @ py '' <'' @ fstr url @ py ''>'' else line)"

text \<open>A payload \<open>{"content": text}\<close> is its text. The check mark is code point 9989.\<close>

definition all_clear :: pystr where
  "all_clear = [9989] @ py '' No missing or below 50% assignments found.''"

definition not_configured_message :: pystr where
  "not_configured_message =
     py ''Discord webhook not configured; set DISCORD_WEBHOOK_URL to enable notifications.''"

text \<open>
  What \<open>send_discord_notifications\<close> reads from outside: the environment variable at call
  time, the module constant read at import, and \<open>requests.post\<close> followed by
  \<open>raise_for_status\<close>, which succeeds or raises.
\<close>

record discord =
  getenv_DISCORD_WEBHOOK_URL :: "pystr option"
  DEFAULT_DISCORD_WEBHOOK_URL :: "pystr option"
  post :: "pystr \<Rightarrow> pystr \<Rightarrow> py_error + unit"

text \<open>
  What it does: the lines printed, the payloads \<open>requests.post\<close> was called with, in
  order, and the error raised.
\<close>

record send_outcome =
  printed :: "pystr list"
  post_calls :: "pystr list"
  raised :: "py_error option"

text \<open>\<open>x or y\<close> on optional strings.\<close>

definition or_str :: "pystr option \<Rightarrow> pystr option \<Rightarrow> pystr option" where
  "or_str x y = (if truthy_str x then x else y)"

text \<open>The loop over the payloads: a failed post raises \<open>RuntimeError\<close> and ends it.\<close>

fun post_payloads ::
  "(pystr \<Rightarrow> pystr \<Rightarrow> py_error + unit) \<Rightarrow> pystr \<Rightarrow> pystr list \<Rightarrow> pystr list \<times> py_error option" where
  "post_payloads p url [] = ([], None)"
| "post_payloads p url (payload # payloads) =
     (case p url payload of
        Inl e \<Rightarrow> ([payload], Some RuntimeError)
      | Inr u \<Rightarrow> (case post_payloads p url payloads of (sent, err) \<Rightarrow> (payload # sent, err)))"

definition payloads_of :: "(pyfloat \<Rightarrow> pystr) \<Rightarrow> report_record list \<Rightarrow> pystr list" where
  "payloads_of fmt2 records =
     (if records = [] then [all_clear]
      else chunk_lines (map (format_assignment_line fmt2) records) 1900)"

definition send_discord_notifications ::
  "discord \<Rightarrow> (pyfloat \<Rightarrow> pystr) \<Rightarrow> report_record list \<Rightarrow> pystr option \<Rightarrow> send_outcome" where
  "send_discord_notifications env fmt2 records webhook_url =
     (let url = or_str (or_str webhook_url (getenv_DISCORD_WEBHOOK_URL env))
                  (DEFAULT_DISCORD_WEBHOOK_URL env)
      in if \<not> truthy_str url
         then \<lparr>printed = [not_configured_message], post_calls = [], raised = None\<rparr>
         else (case post_payloads (post env) (the url) (payloads_of fmt2 records) of
                 (sent, err) \<Rightarrow> \<lparr>printed = [], post_calls = sent, raised = err\<rparr>))"

section \<open>HTTP helpers and grading periods (canvas\_test.py)\<close>

record grading_period =
  p_id :: "int field"
  p_title :: "pystr field"
  p_start_date :: "pystr field"
  p_end_date :: "pystr field"

text \<open>
  The JSON of a page is a list of objects or one object; the grading periods come as a bare
  list or as an object with the list under \<open>grading_periods\<close>.
\<close>

datatype 'a body = JList "'a list" | JObject 'a

datatype periods_payload = Wrapped "grading_period list" | Bare "grading_period list"

text \<open>
  What the collector reads from outside. A request (\<open>requests.get\<close>, \<open>raise_for_status\<close>,
  \<open>r.json()\<close>) gives the decoded JSON with the URL of the \<open>next\<close> link of the response,
  or raises; one function for each of the three endpoints, by the type of its JSON.
  \<open>w_upper\<close> is \<open>str.upper\<close>.
\<close>

record world =
  w_isoparse :: "pystr \<Rightarrow> py_error + datetime"
  w_upper :: "pystr \<Rightarrow> pystr"
  w_CANVAS_BASE :: pystr
  w_courses :: "pystr \<Rightarrow> py_error + (course body \<times> pystr option)"
  w_periods :: "pystr \<Rightarrow> py_error + (periods_payload \<times> pystr option)"
  w_assignments :: "pystr \<Rightarrow> py_error + (assignment body \<times> pystr option)"

definition request_json :: "(pystr \<Rightarrow> py_error + 'a) \<Rightarrow> pystr \<Rightarrow> py_error + 'a" where
  "request_json http url = (case http url of Inl e \<Rightarrow> Inl RuntimeError | Inr r \<Rightarrow> Inr r)"

definition body_items :: "'a body \<Rightarrow> 'a list" where
  "body_items data = (case data of JList xs \<Rightarrow> xs | JObject x \<Rightarrow> [x])"

text \<open>
  The loop of \<open>get_all_pages\<close> follows \<open>next\<close> links for as long as the server sends them:
  \<open>None\<close> stands for a loop that never ends.
\<close>

partial_function (option) pages_loop ::
  "(pystr \<Rightarrow> py_error + ('a body \<times> pystr option)) \<Rightarrow> pystr option \<Rightarrow> 'a list
     \<Rightarrow> (py_error + 'a list) option" where
  "pages_loop http url out =
     (if truthy_str url then
        (case request_json http (the url) of
           Inl e \<Rightarrow> Some (Inl e)
         | Inr r \<Rightarrow> pages_loop http (snd r) (out @ body_items (fst r)))
      else Some (Inr out))"

definition get_all_pages ::
  "(pystr \<Rightarrow> py_error + ('a body \<times> pystr option)) \<Rightarrow> pystr \<Rightarrow> (py_error + 'a list) option" where
  "get_all_pages http url = pages_loop http (Some url) []"

text \<open>\<open>str(n)\<close> of an integer, as an f-string prints a course id.\<close>

fun str_nat :: "nat \<Rightarrow> pystr" where
  "str_nat n = (if n < 10 then [48 + n] else str_nat (n div 10) @ [48 + n mod 10])"

declare str_nat.simps [simp del]

definition str_int :: "int \<Rightarrow> pystr" where
  "str_int i = (if i < 0 then 45 # str_nat (nat (- i)) else str_nat (nat i))"

definition get_courses :: "world \<Rightarrow> (py_error + course list) option" where
  "get_courses w =
     get_all_pages (w_courses w)
       (w_CANVAS_BASE w @ py ''/api/v1/users/self/favorites/courses?per_page=100'')"

definition q3_q4_keywords :: "pystr list" where
  "q3_q4_keywords =
     [py ''Q3'', py ''Q4'', py ''QUARTER 3'', py ''QUARTER 4'', py ''3RD QUARTER'',
      py ''4TH QUARTER'']"

definition is_q3_q4 :: "(pystr \<Rightarrow> pystr) \<Rightarrow> pystr option \<Rightarrow> bool" where
  "is_q3_q4 upper title =
     (let t = upper (case or_str title (Some []) of None \<Rightarrow> [] | Some s \<Rightarrow> s)
      in list_ex (\<lambda>k. sublist k t) q3_q4_keywords)"

definition get_q3_q4_periods :: "world \<Rightarrow> int \<Rightarrow> py_error + grading_period list" where
  "get_q3_q4_periods w course_id =
     (case request_json (w_periods w)
             (w_CANVAS_BASE w @ py ''/api/v1/courses/'' @ str_int course_id
                @ py ''/grading_periods'') of
        Inl e \<Rightarrow> Inl e
      | Inr r \<Rightarrow>
          (let periods = (case fst r of Wrapped ps \<Rightarrow> ps | Bare ps \<Rightarrow> ps)
           in Inr (filter (\<lambda>p. is_q3_q4 (w_upper w) (dict_get (p_title p))) periods)))"

definition get_q3_q4_period_ids :: "world \<Rightarrow> int \<Rightarrow> py_error + int option list" where
  "get_q3_q4_period_ids w course_id =
     (case get_q3_q4_periods w course_id of
        Inl e \<Rightarrow> Inl e
      | Inr ps \<Rightarrow> Inr (map (\<lambda>p. dict_get (p_id p)) (filter (\<lambda>p. p_id p \<noteq> Absent) ps)))"

text \<open>The loop of \<open>get_q3_q4_date_ranges\<close> over the periods, appending to \<open>out\<close>.\<close>

fun ranges_loop ::
  "(pystr \<Rightarrow> py_error + datetime) \<Rightarrow> grading_period list \<Rightarrow> (datetime \<times> datetime) list
     \<Rightarrow> (datetime \<times> datetime) list" where
  "ranges_loop isoparse [] out = out"
| "ranges_loop isoparse (p # ps) out =
     (let s = dict_get (p_start_date p); e = dict_get (p_end_date p)
      in if truthy_str s \<and> truthy_str e then
           (case isoparse (the s) of
              Inl x \<Rightarrow> ranges_loop isoparse ps out
            | Inr ds \<Rightarrow>
                (case isoparse (the e) of
                   Inl x \<Rightarrow> ranges_loop isoparse ps out
                 | Inr de \<Rightarrow> ranges_loop isoparse ps (out @ [(ds, de)])))
         else ranges_loop isoparse ps out)"

definition get_q3_q4_date_ranges :: "world \<Rightarrow> int \<Rightarrow> py_error + (datetime \<times> datetime) list" where
  "get_q3_q4_date_ranges w course_id =
     (case get_q3_q4_periods w course_id of
        Inl e \<Rightarrow> Inl e
      | Inr ps \<Rightarrow> Inr (ranges_loop (w_isoparse w) ps []))"

section \<open>Collecting the records (canvas\_test.py)\<close>

text \<open>
  A list comprehension with a condition that may raise, and a loop appending the result
  of a call that may raise: the first error ends them.
\<close>

fun filter_exc :: "('a \<Rightarrow> py_error + bool) \<Rightarrow> 'a list \<Rightarrow> py_error + 'a list" where
  "filter_exc f [] = Inr []"
| "filter_exc f (x # xs) =
     (case f x of
        Inl e \<Rightarrow> Inl e
      | Inr b \<Rightarrow>
          (case filter_exc f xs of
             Inl e \<Rightarrow> Inl e
           | Inr ys \<Rightarrow> Inr (if b then x # ys else ys)))"

fun map_exc :: "('a \<Rightarrow> py_error + 'b) \<Rightarrow> 'a list \<Rightarrow> py_error + 'b list" where
  "map_exc f [] = Inr []"
| "map_exc f (x # xs) =
     (case f x of
        Inl e \<Rightarrow> Inl e
      | Inr y \<Rightarrow> (case map_exc f xs of Inl e \<Rightarrow> Inl e | Inr ys \<Rightarrow> Inr (y # ys)))"

text \<open>
  \<open>pids = set(ids)\<close> may hold \<open>None\<close> (a period whose \<open>id\<close> is \<open>null\<close>), which equals no
  grading period id of an assignment: \<open>not pids\<close> is \<open>ids = []\<close>, and the filter sees the
  integers of \<open>ids\<close>.
\<close>

definition get_assignments :: "world \<Rightarrow> int \<Rightarrow> (py_error + assignment list) option" where
  "get_assignments w course_id =
     (case get_q3_q4_period_ids w course_id of
        Inl e \<Rightarrow> Some (Inl e)
      | Inr ids \<Rightarrow>
          (case get_q3_q4_date_ranges w course_id of
             Inl e \<Rightarrow> Some (Inl e)
           | Inr ranges \<Rightarrow>
               if ids = [] \<and> ranges = [] then Some (Inr [])
               else
                 (case get_all_pages (w_assignments w)
                         (w_CANVAS_BASE w @ py ''/api/v1/courses/'' @ str_int course_id
                            @ py ''/assignments?include[]=submission&per_page=100'') of
                    None \<Rightarrow> None
                  | Some (Inl e) \<Rightarrow> Some (Inl e)
                  | Some (Inr pages) \<Rightarrow>
                      Some (filter_exc
                             (\<lambda>a. should_include_assignment (w_isoparse w) a
                                    (set (List.map_filter (\<lambda>i. i) ids)) ranges
                                    default_low_score_threshold_percent)
                             pages))))"

text \<open>
  The loop of \<open>collect_results\<close> over the courses, with the variable \<open>results\<close>:
  \<open>except RuntimeError: continue\<close> goes on with the next course, any other error leaves
  the function.
\<close>

fun collect_loop ::
  "world \<Rightarrow> course list \<Rightarrow> report_record list
     \<Rightarrow> (py_error + report_record list) option" where
  "collect_loop w [] results = Some (Inr results)"
| "collect_loop w (c # cs) results =
     (case get_assignments w (c_id c) of
        None \<Rightarrow> None
      | Some (Inl e) \<Rightarrow> if e = RuntimeError then collect_loop w cs results else Some (Inl e)
      | Some (Inr assignments) \<Rightarrow>
          (case map_exc (assignment_to_record c) assignments of
             Inl e \<Rightarrow> Some (Inl e)
           | Inr rs \<Rightarrow> collect_loop w cs (results @ rs)))"

definition collect_results :: "world \<Rightarrow> (py_error + report_record list) option" where
  "collect_results w =
     (case get_courses w of
        None \<Rightarrow> None
      | Some (Inl e) \<Rightarrow> Some (Inl e)
      | Some (Inr courses) \<Rightarrow> collect_loop w courses [])"

text \<open>
  The partial-result policy in the words of the specification: a course whose assignments
  are fetched contributes the record of each of them, a course whose fetch fails
  contributes none.
\<close>

definition spec_course_records :: "world \<Rightarrow> course \<Rightarrow> report_record list" where
  "spec_course_records w c =
     (case get_assignments w (c_id c) of
        Some (Inr assignments) \<Rightarrow> map (\<lambda>a. projr (assignment_to_record c a)) assignments
      | Some (Inl e) \<Rightarrow> []
      | None \<Rightarrow> [])"

section \<open>The simpler script (check\_assignments.py)\<close>

text \<open>A dictionary is falsy when it has no key.\<close>

definition truthy_submission :: "submission option \<Rightarrow> bool" where
  "truthy_submission s = (case s of None \<Rightarrow> False | Some d \<Rightarrow> d \<noteq> empty_submission)"

text \<open>
  The body of the inner loop of \<open>find_bad_assignments\<close> for one assignment, up to its
  condition: whether the assignment is appended to \<open>bad\<close> (\<open>continue\<close> appends nothing),
  or the error the division raises (also \<open>TypeError\<close>, for a \<open>points_possible\<close> that is
  \<open>null\<close>), which nothing catches.
\<close>

definition find_bad_condition :: "assignment \<Rightarrow> py_error + bool" where
  "find_bad_condition a =
     (let sub = dict_get (a_submission a)
      in if \<not> truthy_submission sub then Inr False
         else
           (let missing = dict_get_default (s_missing (the sub)) False;
                score = dict_get (s_score (the sub));
                points = dict_get_default (a_points_possible a) (PyInt 100)
            in case (if score \<noteq> None then
                       (case points of
                          None \<Rightarrow> Inl TypeError
                        | Some p \<Rightarrow>
                            (case percentage (the score) p of
                               Inl e \<Rightarrow> Inl e
                             | Inr v \<Rightarrow> Inr (PyFloat v)))
                     else Inr (PyInt 0)) of
                 Inl e \<Rightarrow> Inl e
               | Inr percent \<Rightarrow> Inr (truthy_bool missing \<or> py_lt percent (PyInt 50))))"

section \<open>Fixtures of the unit tests\<close>

text \<open>
  \<open>setUp\<close> of \<open>TestFiltering\<close>, with times in seconds since 1970-01-01T00:00:00 and an
  \<open>isoparse\<close> that knows the dates the tests use, and one date with no offset.
\<close>

definition test_isoparse :: "pystr \<Rightarrow> py_error + datetime" where
  "test_isoparse s =
     (if s = py ''2025-01-01T00:00:00Z'' then Inr (Aware 1735689600)
      else if s = py ''2025-03-31T23:59:59Z'' then Inr (Aware 1743465599)
      else if s = py ''2025-02-15T12:00:00Z'' then Inr (Aware 1739620800)
      else if s = py ''2024-10-15T12:00:00Z'' then Inr (Aware 1728993600)
      else if s = py ''2025-02-20T12:00:00Z'' then Inr (Aware 1740052800)
      else if s = py ''2025-02-15T12:00:00'' then Inr (Naive 1739620800)
      else Inl ValueError)"

definition test_period_ids :: "int set" where
  "test_period_ids = {1}"

definition test_ranges :: "(datetime \<times> datetime) list" where
  "test_ranges = [(Aware 1735689600, Aware 1743465599)]"

text \<open>An assignment with no key, and a submission with no key, to build the others from.\<close>

definition no_keys :: assignment where
  "no_keys = \<lparr>a_id = Absent, a_name = Absent, a_points_possible = Absent, a_due_at = Absent,
               a_grading_period_id = Absent, a_submission = Absent, a_html_url = Absent\<rparr>"

text \<open>An integer too large for a float (the largest float is below \<open>1.8e308\<close>).\<close>

definition huge :: int where
  "huge = 10 ^ 309"

text \<open>
  Two favourite courses: the grading periods of course 1 cannot be fetched, course 2 has a
  period titled Q3 and one assignment, missing, in it. Each answer is a single page.
\<close>

definition test_assignment :: assignment where
  "test_assignment =
     no_keys\<lparr>a_grading_period_id := Val 1,
             a_submission := Val \<lparr>s_missing = Val True, s_late = Absent, s_score = Absent\<rparr>\<rparr>"

definition test_world :: world where
  "test_world =
     \<lparr>w_isoparse = test_isoparse,
      w_upper = (\<lambda>s. s),
      w_CANVAS_BASE = py ''https://canvas.test'',
      w_courses = (\<lambda>url. Inr (JList [\<lparr>c_id = 1, c_name = Val (py ''Art'')\<rparr>,
                                        \<lparr>c_id = 2, c_name = Val (py ''Biology'')\<rparr>], None)),
      w_periods = (\<lambda>url.
        if url = py ''https://canvas.test/api/v1/courses/2/grading_periods''
        then Inr (Wrapped [\<lparr>p_id = Val 1, p_title = Val (py ''Q3''), p_start_date = Absent,
                             p_end_date = Absent\<rparr>], None)
        else Inl ValueError),
      w_assignments = (\<lambda>url.
        if url = py ''https://canvas.test/api/v1/courses/2/assignments?include[]=submission&per_page=100''
        then Inr (JList [test_assignment], None)
        else Inl ValueError)\<rparr>"

section \<open>Rounding to binary64\<close>

lemma pow2_powi: "pow2 e = 2 powi e"
  by (simp add: pow2_def power_int_def power_one_over inverse_eq_divide)

lemma pow2_pos: "0 < pow2 e"
  by (simp add: pow2_powi)

lemma pow2_nat: "pow2 (int n) = 2 ^ n"
  by (simp add: pow2_def)

lemma pow2_add: "pow2 (a + b) = pow2 a * pow2 b"
  by (simp add: pow2_powi power_int_add)

lemma pow2_mono: "a \<le> b \<Longrightarrow> pow2 a \<le> pow2 b"
  by (simp add: pow2_powi power_int_increasing)

lemma pow2_less: "a < b \<Longrightarrow> pow2 a < pow2 b"
  by (simp add: pow2_powi power_int_strict_increasing)

lemma pow2_minus: "pow2 (- j) = 1 / pow2 j"
  by (simp add: pow2_powi power_int_minus_divide)

lemma pow2_le_of_nat: "2 ^ m \<le> n \<Longrightarrow> (2::rat) ^ m \<le> of_nat n"
proof -
  assume "2 ^ m \<le> n"
  then have "(of_nat (2 ^ m) :: rat) \<le> of_nat n" by (rule of_nat_mono)
  then show ?thesis by simp
qed

lemma of_nat_less_pow2: "n < 2 ^ m \<Longrightarrow> of_nat n + 1 \<le> (2::rat) ^ m"
proof -
  assume "n < 2 ^ m"
  then have "n + 1 \<le> 2 ^ m" by simp
  then have "(of_nat (n + 1) :: rat) \<le> of_nat (2 ^ m)" by (rule of_nat_mono)
  then show ?thesis by simp
qed

lemma bits_bounds: "0 < n \<Longrightarrow> 2 ^ (bits n - 1) \<le> n \<and> n < 2 ^ bits n"
proof (induction n rule: bits.induct)
  case (1 n)
  show ?case
  proof (cases "n div 2 = 0")
    case True
    with 1 have "n = 1" by (simp add: div_eq_0_iff)
    then show ?thesis by (simp add: bits.simps)
  next
    case False
    with 1 have ih: "2 ^ (bits (n div 2) - 1) \<le> n div 2" "n div 2 < 2 ^ bits (n div 2)"
      by simp_all
    from False have pos: "0 < bits (n div 2)" by (simp add: bits.simps)
    have b: "bits n = Suc (bits (n div 2))" using 1 by (simp add: bits.simps)
    from pos have "(2::nat) ^ (bits n - 1) = 2 * 2 ^ (bits (n div 2) - 1)"
      by (cases "bits (n div 2)") (simp_all add: b)
    with ih show ?thesis by (simp add: b) linarith
  qed
qed

text \<open>The digits of the integer part bracket a rational that is at least one.\<close>

lemma bits_floor_bounds:
  assumes "1 \<le> (b::rat)"
  shows "pow2 (int (bits (nat \<lfloor>b\<rfloor>)) - 1) \<le> b \<and> b < pow2 (int (bits (nat \<lfloor>b\<rfloor>)))"
proof -
  define n where "n = nat \<lfloor>b\<rfloor>"
  have n: "0 < n" "of_nat n \<le> b" "b < of_nat n + 1"
    using assms by (simp_all add: n_def) linarith+
  from bits_bounds [OF n(1)] have bb: "2 ^ (bits n - 1) \<le> n" "n < 2 ^ bits n" by simp_all
  have pos: "0 < bits n" using n(1) by (simp add: bits.simps)
  then have k: "int (bits n) - 1 = int (bits n - 1)" by simp
  have "(2::rat) ^ (bits n - 1) \<le> of_nat n"
    using bb(1) by (rule pow2_le_of_nat)
  with n(2) have "(2::rat) ^ (bits n - 1) \<le> b" by linarith
  then have lo: "pow2 (int (bits n) - 1) \<le> b" by (simp only: k pow2_nat)
  have "of_nat n + 1 \<le> (2::rat) ^ bits n"
    using bb(2) by (rule of_nat_less_pow2)
  with n(3) have "b < (2::rat) ^ bits n" by linarith
  then have hi: "b < pow2 (int (bits n))" by (simp only: pow2_nat)
  from lo hi show ?thesis by (simp add: n_def)
qed

lemma ilog2_bounds:
  assumes "0 < a"
  shows "pow2 (ilog2 a) \<le> a \<and> a < pow2 (ilog2 a + 1)"
proof (cases "1 \<le> a")
  case True
  then have e: "ilog2 a = int (bits (nat \<lfloor>a\<rfloor>)) - 1" by (simp add: ilog2_def)
  from bits_floor_bounds [OF True] show ?thesis by (simp add: e)
next
  case False
  define b where "b = 1 / a"
  define k where "k = int (bits (nat \<lfloor>b\<rfloor>)) - 1"
  from assms False have b1: "1 < b" by (simp add: b_def)
  then have "1 \<le> b" by simp
  from bits_floor_bounds [OF this] have lo: "pow2 k \<le> b" and hi: "b < pow2 (k + 1)"
    by (simp_all add: k_def)
  have a: "a = 1 / b" using assms by (simp add: b_def)
  have alo: "pow2 (- k - 1) < a"
  proof -
    have "pow2 (- k - 1) = 1 / pow2 (k + 1)" using pow2_minus [of "k + 1"] by simp
    also have "\<dots> < 1 / b" using hi b1 by (simp add: frac_less2)
    finally show ?thesis by (simp add: a)
  qed
  have ahi: "a \<le> pow2 (- k)"
  proof -
    have "1 / b \<le> 1 / pow2 k" using lo pow2_pos [of k] by (simp add: frac_le)
    then show ?thesis by (simp add: a pow2_minus)
  qed
  have il: "ilog2 a = (if a = pow2 (- k) then - k else - k - 1)"
    using False by (simp add: ilog2_def k_def b_def Let_def)
  show ?thesis
  proof (cases "a = pow2 (- k)")
    case True
    with il have "ilog2 a = - k" by simp
    moreover have "pow2 (- k) < pow2 (- k + 1)" by (rule pow2_less) simp
    ultimately show ?thesis using True by simp
  next
    case ne: False
    with il have "ilog2 a = - k - 1" by simp
    moreover from ne ahi have "a < pow2 (- k)" by simp
    ultimately show ?thesis using alo by simp
  qed
qed

lemma ilog2_unique:
  assumes "pow2 e \<le> a" and "a < pow2 (e + 1)"
  shows "ilog2 a = e"
proof -
  have "0 < a" using assms(1) pow2_pos [of e] by simp
  from ilog2_bounds [OF this] have b: "pow2 (ilog2 a) \<le> a" "a < pow2 (ilog2 a + 1)"
    by simp_all
  have "\<not> ilog2 a < e"
  proof
    assume "ilog2 a < e"
    then have "pow2 (ilog2 a + 1) \<le> pow2 e" by (intro pow2_mono) simp
    with b(2) assms(1) show False by simp
  qed
  moreover have "\<not> e < ilog2 a"
  proof
    assume "e < ilog2 a"
    then have "pow2 (e + 1) \<le> pow2 (ilog2 a)" by (intro pow2_mono) simp
    with b(1) assms(2) show False by simp
  qed
  ultimately show ?thesis by simp
qed

lemma round_half_even_eqI:
  assumes "2 * of_int n - 1 < 2 * x" and "2 * x < 2 * of_int n + 1"
  shows "round_half_even x = n"
proof -
  have f: "\<lfloor>x\<rfloor> = n \<or> \<lfloor>x\<rfloor> = n - 1"
    using assms by (simp add: floor_eq_iff) linarith
  show ?thesis
  proof (cases "\<lfloor>x\<rfloor> = n")
    case True
    with assms show ?thesis by (simp add: round_half_even_def Let_def)
  next
    case False
    with f have "\<lfloor>x\<rfloor> = n - 1" by simp
    with assms show ?thesis by (simp add: round_half_even_def Let_def)
  qed
qed

lemma round_half_even_tie_up:
  assumes "x = of_int n - 1 / 2" and "even n"
  shows "round_half_even x = n"
proof -
  have "\<lfloor>x\<rfloor> = n - 1"
    using assms(1) by (simp add: floor_eq_iff)
  with assms show ?thesis by (simp add: round_half_even_def Let_def)
qed

lemma round_half_even_ge: "of_int m \<le> x \<Longrightarrow> m \<le> round_half_even x"
proof -
  assume "of_int m \<le> x"
  then have "m \<le> \<lfloor>x\<rfloor>" by (simp add: le_floor_iff)
  then show ?thesis by (simp add: round_half_even_def Let_def)
qed

text \<open>
  A positive rational in the range of the normal and subnormal numbers rounds to the
  multiple \<open>n\<close> of the spacing at its exponent, \<open>n\<close> being the nearest integer.
\<close>

lemma f64_round_pos:
  assumes "pow2 e \<le> x" and "x < pow2 (e + 1)" and "- 1022 \<le> e"
    and "2 * of_int n - 1 < 2 * (x / pow2 (e - 52))"
    and "2 * (x / pow2 (e - 52)) < 2 * of_int n + 1"
    and "of_int n * pow2 (e - 52) < pow2 1024"
  shows "f64_round x = Finite (of_int n * pow2 (e - 52))"
proof -
  have x: "0 < x" using assms(1) pow2_pos [of e] by simp
  have e: "ilog2 x = e" using assms(1,2) by (rule ilog2_unique)
  have r: "round_half_even (x / pow2 (e - 52)) = n"
    using assms(4,5) by (rule round_half_even_eqI)
  have m: "max (ilog2 x) (- 1022) = e" using e assms(3) by simp
  have nz: "x \<noteq> 0" "\<bar>x\<bar> = x" using x by simp_all
  show ?thesis
    unfolding f64_round_def Let_def m nz r using x assms(6) by simp
qed

text \<open>From \<open>pow2 1024\<close> on, the result is an infinity.\<close>

lemma f64_round_large:
  assumes "pow2 1024 \<le> \<bar>x\<bar>"
  shows "f64_round x = (if 0 < x then PosInf else NegInf)"
proof -
  define a where "a = \<bar>x\<bar>"
  define e where "e = ilog2 a"
  have a: "0 < a" "pow2 1024 \<le> a" using assms pow2_pos [of 1024] by (simp_all add: a_def)
  from ilog2_bounds [OF a(1)] have b: "pow2 e \<le> a" "a < pow2 (e + 1)"
    by (simp_all add: e_def)
  have e: "1024 \<le> e"
  proof (rule ccontr)
    assume "\<not> 1024 \<le> e"
    then have "pow2 (e + 1) \<le> pow2 1024" by (intro pow2_mono) simp
    with b(2) a(2) show False by simp
  qed
  then have m: "max e (- 1022) = e" by simp
  define q where "q = pow2 (e - 52)"
  have q: "0 < q" by (simp add: q_def pow2_pos)
  have "pow2 e = pow2 52 * q" using pow2_add [of 52 "e - 52"] by (simp add: q_def)
  with b(1) have "pow2 52 * q \<le> a" by simp
  then have "pow2 52 \<le> a / q" using q by (simp add: pos_le_divide_eq)
  moreover have "pow2 52 = of_int (2 ^ 52)" by (simp add: pow2_def)
  ultimately have "of_int (2 ^ 52) \<le> a / q" by simp
  then have "2 ^ 52 \<le> round_half_even (a / q)" by (rule round_half_even_ge)
  then have "(of_int (2 ^ 52) :: rat) \<le> of_int (round_half_even (a / q))"
    by (simp only: of_int_le_iff)
  then have "of_int (2 ^ 52) * q \<le> of_int (round_half_even (a / q)) * q"
    using q by (simp only: mult_le_cancel_right_pos)
  moreover have "of_int (2 ^ 52) * q = pow2 e"
    using \<open>pow2 e = pow2 52 * q\<close> \<open>pow2 52 = of_int (2 ^ 52)\<close> by simp
  moreover have "pow2 1024 \<le> pow2 e" using e by (rule pow2_mono)
  ultimately have big: "pow2 1024 \<le> of_int (round_half_even (a / q)) * q" by simp
  have nz: "x \<noteq> 0" using a(1) by (auto simp: a_def)
  show ?thesis
    using big nz by (simp add: f64_round_def Let_def a_def [symmetric] e_def [symmetric] m
        q_def [symmetric])
qed

text \<open>The values the examples need, each the one Python prints.\<close>

lemma f64_round_1_2: "f64_round (1 / 2) = Finite (1 / 2)"
  by (subst f64_round_pos [where e = "- 1" and n = 4503599627370496]) (simp_all add: pow2_def)

lemma f64_round_50: "f64_round 50 = Finite 50"
  by (subst f64_round_pos [where e = 5 and n = 7036874417766400]) (simp_all add: pow2_def)

lemma f64_round_11_20: "f64_round (11 / 20) = Finite (2476979795053773 / 4503599627370496)"
  by (subst f64_round_pos [where e = "- 1" and n = 4953959590107546]) (simp_all add: pow2_def)

lemma f64_round_11_20_100:
  "f64_round (2476979795053773 / 4503599627370496 * 100)
     = Finite (7740561859543041 / 140737488355328)"
  by (subst f64_round_pos [where e = 5 and n = 7740561859543041]) (simp_all add: pow2_def)

lemma f64_round_23_160: "f64_round (23 / 160) = Finite (2589569785738035 / 18014398509481984)"
  by (subst f64_round_pos [where e = "- 3" and n = 5179139571476070]) (simp_all add: pow2_def)

lemma f64_round_23_160_100:
  "f64_round (2589569785738035 / 18014398509481984 * 100)
     = Finite (8092405580431359 / 562949953421312)"
  by (subst f64_round_pos [where e = 3 and n = 8092405580431359]) (simp_all add: pow2_def)

lemma f64_round_1437: "f64_round (1437 / 100) = Finite (8089590830664253 / 562949953421312)"
  by (subst f64_round_pos [where e = 3 and n = 8089590830664253]) (simp_all add: pow2_def)

lemma f64_round_1_10: "f64_round (1 / 10) = Finite (3602879701896397 / 36028797018963968)"
  by (subst f64_round_pos [where e = "- 4" and n = 7205759403792794]) (simp_all add: pow2_def)

lemma f64_round_1_10_100: "f64_round (3602879701896397 / 36028797018963968 * 100) = Finite 10"
  by (subst f64_round_pos [where e = 3 and n = 5629499534213120]) (simp_all add: pow2_def)

lemma percentage_5_10: "percentage (PyInt 5) (PyInt 10) = Inr (Finite 50)"
  by (simp add: percentage_def py_truediv_def f64_round_1_2 f64_round_50)

lemma percentage_11_20:
  "percentage (PyInt 11) (PyInt 20) = Inr (Finite (7740561859543041 / 140737488355328))"
  using f64_round_11_20_100 by (simp add: percentage_def py_truediv_def f64_round_11_20)

lemma percentage_23_160:
  "percentage (PyInt 23) (PyInt 160) = Inr (Finite (8092405580431359 / 562949953421312))"
  using f64_round_23_160_100 by (simp add: percentage_def py_truediv_def f64_round_23_160)

lemma percentage_10_100: "percentage (PyInt 10) (PyInt 100) = Inr (Finite 10)"
  using f64_round_1_10_100 by (simp add: percentage_def py_truediv_def f64_round_1_10)

lemma percentage_overflow:
  "percentage (PyInt huge) (PyInt 1) = Inl OverflowError"
  "percentage (PyInt (- huge)) (PyInt 1) = Inl OverflowError"
proof -
  have big: "pow2 1024 \<le> \<bar>of_int huge\<bar>" "pow2 1024 \<le> \<bar>- of_int huge :: rat\<bar>"
    and pos: "0 < (of_int huge :: rat)"
    by (simp_all add: pow2_def huge_def)
  have "f64_round (of_int huge) = PosInf"
    using f64_round_large [OF big(1)] pos by simp
  then show "percentage (PyInt huge) (PyInt 1) = Inl OverflowError"
    by (simp add: percentage_def py_truediv_def)
  have "f64_round (- of_int huge) = NegInf"
    using f64_round_large [OF big(2)] pos by simp
  then show "percentage (PyInt (- huge)) (PyInt 1) = Inl OverflowError"
    by (simp add: percentage_def py_truediv_def)
qed

lemma py_round2_23_160:
  "py_round2 (Finite (8092405580431359 / 562949953421312))
     = Finite (8089590830664253 / 562949953421312)"
proof -
  have "round_half_even (8092405580431359 / 562949953421312 * 100) = 1437"
    by (rule round_half_even_eqI) simp_all
  then show ?thesis by (simp add: py_round2_def f64_round_1437)
qed

section \<open>The eligibility filter\<close>

lemma should_include_assignment_total:
  "\<exists>b. should_include_assignment isoparse a period_ids ranges thr = Inr b"
  by (auto simp: should_include_assignment_def Let_def split: sum.splits)

lemma not_belongs_excluded:
  "\<not> belongs isoparse a period_ids ranges \<Longrightarrow>
     should_include_assignment isoparse a period_ids ranges thr = Inr False"
  by (simp add: should_include_assignment_def Let_def)



lemma dt_le_mixed: "\<not> same_kind x y \<Longrightarrow> dt_le x y = Inl TypeError"
  by (cases x; cases y) (simp_all add: same_kind_def dt_le_def)









text \<open>
  C2, as the code has it. The percentage is computed in binary floating point: 11 of 20
  gives \<open>55.00000000000001\<close>, which is above a threshold of 55, though 11/20 of 100 is 55;
  and a score too large for a float makes the division raise, which is caught and
  answered false, though the percentage is far below the threshold.
\<close>

theorem low_score_threshold_counterexample:
  "belongs test_isoparse
     (no_keys\<lparr>a_grading_period_id := Val 1, a_points_possible := Val (PyInt 20),
              a_submission := Val \<lparr>s_missing = Val False, s_late = Absent,
                                     s_score = Val (PyInt 11)\<rparr>\<rparr>)
     test_period_ids test_ranges
   \<and> should_include_assignment test_isoparse
     (no_keys\<lparr>a_grading_period_id := Val 1, a_points_possible := Val (PyInt 20),
              a_submission := Val \<lparr>s_missing = Val False, s_late = Absent,
                                     s_score = Val (PyInt 11)\<rparr>\<rparr>)
     test_period_ids test_ranges (PyFloat (Finite 55)) = Inr False
   \<and> (11::rat) / 20 * 100 \<le> 55
   \<and> should_include_assignment test_isoparse
     (no_keys\<lparr>a_grading_period_id := Val 1, a_points_possible := Val (PyInt 1),
              a_submission := Val \<lparr>s_missing = Val False, s_late = Absent,
                                     s_score = Val (PyInt (- huge))\<rparr>\<rparr>)
     test_period_ids test_ranges default_low_score_threshold_percent = Inr False
   \<and> of_int (- huge) / 1 * 100 \<le> (50::rat)"
proof -
  have "0 \<le> huge" by (simp add: huge_def)
  then have "of_int (- huge) / 1 * 100 \<le> (50::rat)" by simp
  then show ?thesis
    by (simp add: should_include_assignment_def belongs_def submission_or_empty_def
        no_keys_def dict_get_def truthy_bool_def truthy_num_def test_period_ids_def
        percentage_11_20 percentage_overflow py_le_def exact_def
        default_low_score_threshold_percent_def Let_def)
qed

text \<open>
  C2, amended. For an assignment that belongs to the window, is not flagged missing, and
  has a score and a non-zero \<open>points_possible\<close>, the filter returns whether the value
  Python computes in binary floating point for \<open>(score / points_possible) * 100\<close> is at
  most the threshold, and false when that computation raises (a number too large for a
  float): true when the computed value is the threshold itself, false for any computed
  value above it; the default threshold is 50.0. When score and points are integers whose
  quotient and percentage are binary floating-point numbers, the computed value is the
  percentage itself.
\<close>

theorem low_score_threshold:
  assumes "belongs isoparse a period_ids ranges"
    and "\<not> truthy_bool (dict_get (s_missing (submission_or_empty a)))"
    and "dict_get (s_score (submission_or_empty a)) = Some score"
    and "dict_get (a_points_possible a) = Some points"
    and "truthy_num (Some points)"
  shows "(\<forall>v. percentage score points = Inr v \<longrightarrow>
            should_include_assignment isoparse a period_ids ranges thr
              = Inr (py_le (PyFloat v) thr))
       \<and> (\<forall>x. percentage score points = Inl x \<longrightarrow>
            should_include_assignment isoparse a period_ids ranges thr = Inr False)
       \<and> (\<forall>r. percentage score points = Inr (Finite r) \<longrightarrow>
            should_include_assignment isoparse a period_ids ranges (PyFloat (Finite r))
              = Inr True)
       \<and> (\<forall>v. percentage score points = Inr v \<longrightarrow>
            should_include_assignment isoparse a period_ids ranges
              default_low_score_threshold_percent = Inr (fle v (Finite 50)))
       \<and> (\<forall>i j. score = PyInt i \<and> points = PyInt j
              \<and> f64_round (of_int i / of_int j) = Finite (of_int i / of_int j)
              \<and> f64_round (of_int i / of_int j * 100) = Finite (of_int i / of_int j * 100)
            \<longrightarrow> should_include_assignment isoparse a period_ids ranges thr
                  = Inr (fle (Finite (of_int i / of_int j * 100)) (exact thr)))"
proof -
  have r: "should_include_assignment isoparse a period_ids ranges t
             = (case percentage score points of
                  Inl x \<Rightarrow> Inr False
                | Inr v \<Rightarrow> Inr (py_le (PyFloat v) t))" for t
    using assms by (simp add: should_include_assignment_def Let_def)
  have exact_case: "percentage (PyInt i) (PyInt j) = Inr (Finite (of_int i / of_int j * 100))"
    if "points = PyInt j" "f64_round (of_int i / of_int j) = Finite (of_int i / of_int j)"
      "f64_round (of_int i / of_int j * 100) = Finite (of_int i / of_int j * 100)" for i j
  proof -
    from assms(5) that(1) have "j \<noteq> 0" by (simp add: truthy_num_def)
    with that(2,3) show ?thesis by (simp add: percentage_def py_truediv_def)
  qed
  show ?thesis
    by (auto simp: r py_le_def exact_def default_low_score_threshold_percent_def
        exact_case)
qed

theorem low_score_threshold_witness:
  "belongs test_isoparse
     (no_keys\<lparr>a_grading_period_id := Val 1, a_points_possible := Val (PyInt 10),
              a_submission := Val \<lparr>s_missing = Val False, s_late = Absent,
                                     s_score = Val (PyInt 5)\<rparr>\<rparr>)
     test_period_ids test_ranges
   \<and> percentage (PyInt 5) (PyInt 10) = Inr (Finite 50)
   \<and> should_include_assignment test_isoparse
     (no_keys\<lparr>a_grading_period_id := Val 1, a_points_possible := Val (PyInt 10),
              a_submission := Val \<lparr>s_missing = Val False, s_late = Absent,
                                     s_score = Val (PyInt 5)\<rparr>\<rparr>)
     test_period_ids test_ranges default_low_score_threshold_percent = Inr True
   \<and> should_include_assignment test_isoparse
     (no_keys\<lparr>a_grading_period_id := Val 1, a_points_possible := Val (PyInt 10),
              a_submission := Val \<lparr>s_missing = Val False, s_late = Absent,
                                     s_score = Val (PyInt 5)\<rparr>\<rparr>)
     test_period_ids test_ranges (PyInt 51) = Inr True
   \<and> should_include_assignment test_isoparse
     (no_keys\<lparr>a_grading_period_id := Val 1, a_points_possible := Val (PyInt 10),
              a_submission := Val \<lparr>s_missing = Val False, s_late = Absent,
                                     s_score = Val (PyInt 5)\<rparr>\<rparr>)
     test_period_ids test_ranges (PyInt 49) = Inr False"
proof -
  let ?a = "no_keys\<lparr>a_grading_period_id := Val 1, a_points_possible := Val (PyInt 10),
              a_submission := Val \<lparr>s_missing = Val False, s_late = Absent,
                                     s_score = Val (PyInt 5)\<rparr>\<rparr>"
  have b: "belongs test_isoparse ?a test_period_ids test_ranges"
    by (simp add: belongs_def no_keys_def dict_get_def test_period_ids_def)
  have m: "\<not> truthy_bool (dict_get (s_missing (submission_or_empty ?a)))"
    by (simp add: submission_or_empty_def dict_get_def truthy_bool_def)
  have s: "dict_get (s_score (submission_or_empty ?a)) = Some (PyInt 5)"
    by (simp add: submission_or_empty_def dict_get_def)
  have p: "dict_get (a_points_possible ?a) = Some (PyInt 10)"
    by (simp add: dict_get_def)
  have z: "truthy_num (Some (PyInt 10))" by (simp add: truthy_num_def)
  note t = low_score_threshold [OF b m s p z]
  from b percentage_5_10 t [of default_low_score_threshold_percent] t [of "PyInt 51"]
    t [of "PyInt 49"]
  show ?thesis
    by (simp add: py_le_def exact_def)
qed

text \<open>
  C3. An assignment that belongs to the window and whose submission is flagged missing is
  included, whatever its score and \<open>points_possible\<close> are.
\<close>

theorem missing_always_included:
  assumes "belongs isoparse a period_ids ranges"
    and "truthy_bool (dict_get (s_missing (submission_or_empty a)))"
  shows "should_include_assignment isoparse a period_ids ranges thr = Inr True"
  using assms by (simp add: should_include_assignment_def Let_def)

theorem missing_always_included_witness:
  "belongs test_isoparse
     (no_keys\<lparr>a_grading_period_id := Val 1,
              a_submission := Val \<lparr>s_missing = Val True, s_late = Absent,
                                     s_score = Val (PyInt 9)\<rparr>\<rparr>)
     test_period_ids test_ranges
   \<and> should_include_assignment test_isoparse
     (no_keys\<lparr>a_grading_period_id := Val 1,
              a_submission := Val \<lparr>s_missing = Val True, s_late = Absent,
                                     s_score = Val (PyInt 9)\<rparr>\<rparr>)
     test_period_ids test_ranges default_low_score_threshold_percent = Inr True"
proof -
  let ?a = "no_keys\<lparr>a_grading_period_id := Val 1,
              a_submission := Val \<lparr>s_missing = Val True, s_late = Absent,
                                     s_score = Val (PyInt 9)\<rparr>\<rparr>"
  have b: "belongs test_isoparse ?a test_period_ids test_ranges"
    by (simp add: belongs_def no_keys_def dict_get_def test_period_ids_def)
  have m: "truthy_bool (dict_get (s_missing (submission_or_empty ?a)))"
    by (simp add: submission_or_empty_def dict_get_def truthy_bool_def)
  from b missing_always_included [OF b m, of default_low_score_threshold_percent]
  show ?thesis by simp
qed

text \<open>
  C4. The filter never raises: it returns a boolean for every assignment. Without the
  missing flag, an absent score or an absent or zero \<open>points_possible\<close> gives false and no
  division is attempted; a due date that fails to parse leaves the assignment outside the
  window.
\<close>

theorem filter_total:
  "(\<exists>b. should_include_assignment isoparse a period_ids ranges thr = Inr b)
   \<and> (\<not> truthy_bool (dict_get (s_missing (submission_or_empty a)))
        \<and> (dict_get (s_score (submission_or_empty a)) = None
            \<or> dict_get (a_points_possible a) = None
            \<or> dict_get (a_points_possible a) = Some (PyInt 0)
            \<or> dict_get (a_points_possible a) = Some (PyFloat (Finite 0)))
      \<longrightarrow> should_include_assignment isoparse a period_ids ranges thr = Inr False)
   \<and> ((\<forall>g. dict_get (a_grading_period_id a) = Some g \<longrightarrow> g \<notin> period_ids)
        \<and> (\<exists>due e. dict_get (a_due_at a) = Some due \<and> isoparse due = Inl e)
      \<longrightarrow> \<not> belongs isoparse a period_ids ranges
          \<and> should_include_assignment isoparse a period_ids ranges thr = Inr False)"
proof (intro conjI impI)
  show "\<exists>b. should_include_assignment isoparse a period_ids ranges thr = Inr b"
    by (rule should_include_assignment_total)
next
  assume "\<not> truthy_bool (dict_get (s_missing (submission_or_empty a)))
        \<and> (dict_get (s_score (submission_or_empty a)) = None
            \<or> dict_get (a_points_possible a) = None
            \<or> dict_get (a_points_possible a) = Some (PyInt 0)
            \<or> dict_get (a_points_possible a) = Some (PyFloat (Finite 0)))"
  then show "should_include_assignment isoparse a period_ids ranges thr = Inr False"
    by (auto simp: should_include_assignment_def Let_def truthy_num_def)
next
  assume h: "(\<forall>g. dict_get (a_grading_period_id a) = Some g \<longrightarrow> g \<notin> period_ids)
        \<and> (\<exists>due e. dict_get (a_due_at a) = Some due \<and> isoparse due = Inl e)"
  then show nb: "\<not> belongs isoparse a period_ids ranges"
    by (auto simp: belongs_def Let_def split: option.splits)
  then show "should_include_assignment isoparse a period_ids ranges thr = Inr False"
    by (rule not_belongs_excluded)
qed

theorem filter_total_witness:
  "should_include_assignment test_isoparse
     (no_keys\<lparr>a_grading_period_id := Val 1, a_points_possible := Val (PyInt 0),
              a_submission := Val \<lparr>s_missing = Val False, s_late = Absent,
                                     s_score = Val (PyInt 5)\<rparr>\<rparr>)
     test_period_ids test_ranges default_low_score_threshold_percent = Inr False
   \<and> \<not> belongs test_isoparse
     (no_keys\<lparr>a_grading_period_id := Val 2, a_due_at := Val (py ''soon'')\<rparr>)
     test_period_ids test_ranges"
proof -
  let ?a = "no_keys\<lparr>a_grading_period_id := Val 1, a_points_possible := Val (PyInt 0),
              a_submission := Val \<lparr>s_missing = Val False, s_late = Absent,
                                     s_score = Val (PyInt 5)\<rparr>\<rparr>"
  let ?b = "no_keys\<lparr>a_grading_period_id := Val 2, a_due_at := Val (py ''soon'')\<rparr>"
  have 1: "\<not> truthy_bool (dict_get (s_missing (submission_or_empty ?a)))
        \<and> (dict_get (s_score (submission_or_empty ?a)) = None
            \<or> dict_get (a_points_possible ?a) = None
            \<or> dict_get (a_points_possible ?a) = Some (PyInt 0)
            \<or> dict_get (a_points_possible ?a) = Some (PyFloat (Finite 0)))"
    by (simp add: submission_or_empty_def dict_get_def truthy_bool_def)
  have 2: "(\<forall>g. dict_get (a_grading_period_id ?b) = Some g \<longrightarrow> g \<notin> test_period_ids)
        \<and> (\<exists>due e. dict_get (a_due_at ?b) = Some due \<and> test_isoparse due = Inl e)"
    by (simp add: dict_get_def test_period_ids_def test_isoparse_def py_def)
  from filter_total [of test_isoparse ?a test_period_ids test_ranges
      default_low_score_threshold_percent] 1
    filter_total [of test_isoparse ?b test_period_ids test_ranges
      default_low_score_threshold_percent] 2
  show ?thesis by blast
qed

text \<open>
  C10. Two assignments that differ only in the late flag of the submission get the same
  answer from the filter, for every \<open>period_ids\<close>, \<open>ranges\<close> and threshold; their records
  differ at most in \<open>status\<close>, which is \<open>late\<close> exactly when the submission is late and not
  missing.
\<close>

theorem late_flag_irrelevant:
  "should_include_assignment isoparse (a\<lparr>a_submission := Val (s\<lparr>s_late := l1\<rparr>)\<rparr>)
       period_ids ranges thr
     = should_include_assignment isoparse (a\<lparr>a_submission := Val (s\<lparr>s_late := l2\<rparr>)\<rparr>)
         period_ids ranges thr
   \<and> (\<exists>r1 r2.
         assignment_to_record c (a\<lparr>a_submission := Val (s\<lparr>s_late := l1\<rparr>)\<rparr>) = Inr r1
       \<and> assignment_to_record c (a\<lparr>a_submission := Val (s\<lparr>s_late := l2\<rparr>)\<rparr>) = Inr r2
       \<and> r1\<lparr>r_status := []\<rparr> = r2\<lparr>r_status := []\<rparr>
       \<and> (r_status r1 = py ''late'' \<longleftrightarrow>
            \<not> truthy_bool (dict_get (s_missing s)) \<and> truthy_bool (dict_get l1)))"
  by (simp add: should_include_assignment_def belongs_def assignment_to_record_def
      submission_or_empty_def dict_get_def Let_def py_def)

theorem late_flag_irrelevant_witness:
  "should_include_assignment test_isoparse
     (test_assignment\<lparr>a_submission := Val (empty_submission\<lparr>s_late := Val True\<rparr>)\<rparr>)
     test_period_ids test_ranges default_low_score_threshold_percent
   = should_include_assignment test_isoparse
     (test_assignment\<lparr>a_submission := Val (empty_submission\<lparr>s_late := Val False\<rparr>)\<rparr>)
     test_period_ids test_ranges default_low_score_threshold_percent"
  by (rule late_flag_irrelevant [THEN conjunct1])

section \<open>The record of an assignment\<close>

lemma assignment_to_record_total: "\<exists>r. assignment_to_record c a = Inr r"
  by (simp add: assignment_to_record_def Let_def)

text \<open>
  C7, as the code has it. A score too large for a float makes the division raise; the
  error is caught and \<open>percent\<close> stays \<open>None\<close>, though the score is present and
  \<open>points_possible\<close> is not zero. And the percentage that is rounded is the one computed in
  binary floating point: 23 of 160 gives \<open>14.374999999999998\<close>, rounded to \<open>14.37\<close>,
  though 23/160 of 100 is 14.375, which rounds to 14.38.
\<close>

theorem record_percent_counterexample:
  "map_sum id r_percent
     (assignment_to_record \<lparr>c_id = 7, c_name = Val (py ''Biology'')\<rparr>
        (no_keys\<lparr>a_points_possible := Val (PyInt 1),
                 a_submission := Val \<lparr>s_missing = Absent, s_late = Absent,
                                        s_score = Val (PyInt huge)\<rparr>\<rparr>)) = Inr None
   \<and> map_sum id r_percent
     (assignment_to_record \<lparr>c_id = 7, c_name = Val (py ''Biology'')\<rparr>
        (no_keys\<lparr>a_points_possible := Val (PyInt 160),
                 a_submission := Val \<lparr>s_missing = Absent, s_late = Absent,
                                        s_score = Val (PyInt 23)\<rparr>\<rparr>))
       = Inr (Some (Finite (8089590830664253 / 562949953421312)))
   \<and> f64_round (1437 / 100) = Finite (8089590830664253 / 562949953421312)
   \<and> round_half_even (23 / 160 * 100 * 100) = 1438"
proof -
  have tie: "round_half_even (2875 / 2) = 1438"
    by (rule round_half_even_tie_up) simp_all
  show ?thesis
    by (simp add: assignment_to_record_def submission_or_empty_def no_keys_def dict_get_def
        truthy_num_def percentage_overflow percentage_23_160 py_round2_23_160 f64_round_1437
        tie Let_def)
qed

text \<open>
  C7, amended. Building the record never raises, and its \<open>percent\<close> is \<open>round(p, 2)\<close>,
  where \<open>p\<close> is the value Python computes in binary floating point for
  \<open>(score / points_possible) * 100\<close>, when the score is present, \<open>points_possible\<close> is
  present and not zero and that computation does not raise; it is \<open>None\<close> when the score
  is absent, \<open>points_possible\<close> is zero or absent, or the computation raises (a number too
  large for a float).
\<close>

theorem record_percent:
  "\<exists>r. assignment_to_record c a = Inr r
       \<and> r_percent r =
           (case dict_get (s_score (submission_or_empty a)) of
              None \<Rightarrow> None
            | Some score \<Rightarrow>
                (case dict_get (a_points_possible a) of
                   None \<Rightarrow> None
                 | Some points \<Rightarrow>
                     if \<not> truthy_num (Some points) then None
                     else (case percentage score points of
                             Inl x \<Rightarrow> None
                           | Inr p \<Rightarrow> Some (py_round2 p))))"
  by (simp add: assignment_to_record_def Let_def truthy_num_def
      split: option.splits sum.splits pynum.splits)

theorem record_percent_witness:
  "\<exists>r. assignment_to_record \<lparr>c_id = 7, c_name = Val (py ''Biology'')\<rparr>
          (no_keys\<lparr>a_points_possible := Val (PyInt 160),
                   a_submission := Val \<lparr>s_missing = Absent, s_late = Absent,
                                          s_score = Val (PyInt 23)\<rparr>\<rparr>)
        = Inr r \<and> r_percent r = Some (Finite (8089590830664253 / 562949953421312))"
proof -
  from record_percent [of "\<lparr>c_id = 7, c_name = Val (py ''Biology'')\<rparr>"
      "no_keys\<lparr>a_points_possible := Val (PyInt 160),
                   a_submission := Val \<lparr>s_missing = Absent, s_late = Absent,
                                          s_score = Val (PyInt 23)\<rparr>\<rparr>"]
  show ?thesis
    by (simp add: submission_or_empty_def dict_get_def truthy_num_def percentage_23_160
        py_round2_23_160)
qed

section \<open>Chunking\<close>

lemma chunk_loop_groups:
  "chunk_loop m ls (map (str_join newline) groups) cur n
     = map (str_join newline) (group_loop m ls groups cur n)"
proof (induction ls arbitrary: groups cur n)
  case Nil
  show ?case by simp
next
  case (Cons l ls)
  have "chunk_loop m ls (map (str_join newline) groups @ [str_join newline cur]) [l] k
      = map (str_join newline) (group_loop m ls (groups @ [cur]) [l] k)" for k
    using Cons.IH [of "groups @ [cur]" "[l]" k] by simp
  with Cons.IH [of groups "cur @ [l]"] show ?case
    by (simp add: Let_def)
qed

lemma concat_group_loop:
  "concat (group_loop m ls groups cur n) = concat groups @ cur @ ls"
  by (induction ls arbitrary: groups cur n) (simp_all add: Let_def)

lemma chunk_ok_single: "chunk_ok m [l]"
  by (auto simp: chunk_ok_def counted_len_def)

lemma counted_len_snoc: "counted_len (g @ [l]) = counted_len g + (int (length l) + 1)"
  by (simp add: counted_len_def)

lemma group_loop_ok:
  assumes "\<forall>g \<in> set groups. chunk_ok m g"
    and "cur \<noteq> [] \<Longrightarrow> chunk_ok m cur"
    and "n = counted_len cur"
  shows "\<forall>g \<in> set (group_loop m ls groups cur n). chunk_ok m g"
  using assms
proof (induction ls arbitrary: groups cur n)
  case Nil
  then show ?case by auto
next
  case (Cons l ls)
  show ?case
  proof (cases "cur \<noteq> [] \<and> n + (int (length l) + 1) > m")
    case True
    have "\<forall>g \<in> set (group_loop m ls (groups @ [cur]) [l] (int (length l) + 1)). chunk_ok m g"
    proof (rule Cons.IH)
      show "\<forall>g\<in>set (groups @ [cur]). chunk_ok m g"
        using Cons.prems True by auto
      show "chunk_ok m [l]" by (rule chunk_ok_single)
      show "int (length l) + 1 = counted_len [l]" by (simp add: counted_len_def)
    qed
    with True show ?thesis by (simp add: Let_def)
  next
    case False
    have "\<forall>g \<in> set (group_loop m ls groups (cur @ [l]) (n + (int (length l) + 1))). chunk_ok m g"
    proof (rule Cons.IH)
      show "\<forall>g\<in>set groups. chunk_ok m g" using Cons.prems by simp
      show "chunk_ok m (cur @ [l])"
      proof (cases "cur = []")
        case True
        then show ?thesis by (simp add: chunk_ok_single)
      next
        case nonempty: False
        with False have "n + (int (length l) + 1) \<le> m" by simp
        with Cons.prems(3) show ?thesis
          by (simp add: chunk_ok_def counted_len_snoc)
      qed
      show "n + (int (length l) + 1) = counted_len (cur @ [l])"
        using Cons.prems(3) by (simp add: counted_len_snoc)
    qed
    with False show ?thesis by (auto simp add: Let_def)
  qed
qed

lemma str_join_Cons: "ys \<noteq> [] \<Longrightarrow> str_join sep (x # ys) = x @ sep @ str_join sep ys"
  by (cases ys) simp_all

lemma str_join_append:
  "xs \<noteq> [] \<Longrightarrow> ys \<noteq> [] \<Longrightarrow> str_join sep (xs @ ys) = str_join sep xs @ sep @ str_join sep ys"
proof (induction xs)
  case Nil
  then show ?case by simp
next
  case (Cons x xs)
  show ?case
  proof (cases "xs = []")
    case True
    with Cons.prems show ?thesis by (simp add: str_join_Cons)
  next
    case False
    with Cons show ?thesis by (simp add: str_join_Cons)
  qed
qed

lemma str_join_concat:
  "\<forall>g \<in> set groups. g \<noteq> [] \<Longrightarrow>
     str_join sep (map (str_join sep) groups) = str_join sep (concat groups)"
proof (induction groups)
  case Nil
  show ?case by simp
next
  case (Cons g groups)
  show ?case
  proof (cases "groups = []")
    case True
    then show ?thesis by simp
  next
    case False
    with Cons.prems have ne: "concat groups \<noteq> []" "g \<noteq> []"
      by (cases groups; auto)+
    from False have "str_join sep (map (str_join sep) (g # groups))
        = str_join sep g @ sep @ str_join sep (map (str_join sep) groups)"
      by (simp add: str_join_Cons)
    also have "\<dots> = str_join sep g @ sep @ str_join sep (concat groups)"
      using Cons by simp
    also have "\<dots> = str_join sep (g @ concat groups)"
      using ne by (simp add: str_join_append)
    finally show ?thesis by simp
  qed
qed

lemma length_str_join_newline:
  "g \<noteq> [] \<Longrightarrow> int (length (str_join newline g)) + 1 = counted_len g"
proof (induction g)
  case Nil
  then show ?case by simp
next
  case (Cons l g)
  show ?case
  proof (cases "g = []")
    case True
    then show ?thesis by (simp add: counted_len_def)
  next
    case False
    with Cons show ?thesis
      by (simp add: str_join_Cons counted_len_def newline_def)
  qed
qed

text \<open>
  C5. For every list of lines and every \<open>max_len\<close>, each chunk is the newline join of a
  run of whole lines, the runs in order make up the input lines, and joining the chunks
  with newlines gives the join of the lines. No chunk is empty, and the counted size of a
  chunk (\<open>len(line) + 1\<close> for each line, one more than the length of the chunk) is at most
  \<open>max_len\<close>, unless the chunk is a single line that exceeds \<open>max_len\<close> by itself; the
  same holds of the plain lengths of the chunk and of the line.
\<close>

theorem chunking_lossless_bounded:
  "chunk_lines lines max_len = map (str_join newline) (chunk_groups lines max_len)
   \<and> concat (chunk_groups lines max_len) = lines
   \<and> str_join newline (chunk_lines lines max_len) = str_join newline lines
   \<and> (\<forall>g \<in> set (chunk_groups lines max_len).
        g \<noteq> [] \<and> int (length (str_join newline g)) + 1 = counted_len g
        \<and> (counted_len g \<le> max_len \<or> (\<exists>l. g = [l] \<and> max_len < int (length l) + 1))
        \<and> (int (length (str_join newline g)) \<le> max_len
             \<or> (\<exists>l. g = [l] \<and> max_len < int (length l))))"
proof -
  have a: "chunk_lines lines max_len = map (str_join newline) (chunk_groups lines max_len)"
    using chunk_loop_groups [of max_len lines "[]" "[]" 0]
    by (simp add: chunk_lines_def chunk_groups_def)
  have b: "concat (chunk_groups lines max_len) = lines"
    by (simp add: chunk_groups_def concat_group_loop)
  have ok: "\<forall>g \<in> set (chunk_groups lines max_len). chunk_ok max_len g"
    unfolding chunk_groups_def
    by (rule group_loop_ok) (simp_all add: counted_len_def)
  then have ne: "\<forall>g \<in> set (chunk_groups lines max_len). g \<noteq> []"
    by (simp add: chunk_ok_def)
  have c: "str_join newline (chunk_lines lines max_len) = str_join newline lines"
    using str_join_concat [OF ne, of newline] by (simp add: a b)
  have real: "int (length (str_join newline g)) \<le> max_len
             \<or> (\<exists>l. g = [l] \<and> max_len < int (length l))"
    if "chunk_ok max_len g" for g
  proof (cases "counted_len g \<le> max_len")
    case True
    with that length_str_join_newline [of g] show ?thesis
      by (simp add: chunk_ok_def)
  next
    case False
    with that obtain l where "g = [l]" by (auto simp: chunk_ok_def)
    then show ?thesis by (cases "int (length l) \<le> max_len") auto
  qed
  from a b c ok real show ?thesis
    by (auto simp: chunk_ok_def length_str_join_newline)
qed

theorem chunking_lossless_bounded_witness:
  "chunk_lines [py ''ab'', py ''cde'', py ''f''] 7 = [py ''ab'' @ newline @ py ''cde'', py ''f'']
   \<and> concat (chunk_groups [py ''ab'', py ''cde'', py ''f''] 7) = [py ''ab'', py ''cde'', py ''f'']
   \<and> chunk_lines [py ''abcdefgh'', py ''i''] 7 = [py ''abcdefgh'', py ''i'']"
proof -
  have 1: "chunk_lines [py ''ab'', py ''cde'', py ''f''] 7
             = [py ''ab'' @ newline @ py ''cde'', py ''f'']"
    by (simp add: chunk_lines_def py_def Let_def)
  have 2: "chunk_lines [py ''abcdefgh'', py ''i''] 7 = [py ''abcdefgh'', py ''i'']"
    by (simp add: chunk_lines_def py_def Let_def)
  from 1 2 chunking_lossless_bounded [of "[py ''ab'', py ''cde'', py ''f'']" 7]
  show ?thesis by blast
qed

section \<open>Notifications\<close>

text \<open>
  C6, as the code has it. With no webhook URL (argument, environment variable and module
  constant all empty) the function prints a message and returns before any payload is
  built, also for an empty list of records.
\<close>

theorem all_clear_counterexample:
  "post_calls (send_discord_notifications
        \<lparr>getenv_DISCORD_WEBHOOK_URL = None, DEFAULT_DISCORD_WEBHOOK_URL = None,
         post = (\<lambda>url payload. Inr ())\<rparr> (\<lambda>x. []) [] None) = []
   \<and> printed (send_discord_notifications
        \<lparr>getenv_DISCORD_WEBHOOK_URL = None, DEFAULT_DISCORD_WEBHOOK_URL = None,
         post = (\<lambda>url payload. Inr ())\<rparr> (\<lambda>x. []) [] None) = [not_configured_message]"
  by (simp add: send_discord_notifications_def or_str_def truthy_str_def)

text \<open>
  C6, amended. When a webhook URL is configured and the list of records is empty, the
  payloads are exactly the one fixed all-clear message, and that one payload is posted;
  the chunker, which returns no chunk for no line, is not what builds them.
\<close>

theorem all_clear_when_configured:
  assumes "truthy_str (or_str (or_str webhook_url (getenv_DISCORD_WEBHOOK_URL env))
                         (DEFAULT_DISCORD_WEBHOOK_URL env))"
  shows "payloads_of fmt2 [] = [all_clear]
       \<and> post_calls (send_discord_notifications env fmt2 [] webhook_url) = [all_clear]
       \<and> printed (send_discord_notifications env fmt2 [] webhook_url) = []
       \<and> chunk_lines (map (format_assignment_line fmt2) []) 1900 = []"
  using assms
  by (simp add: send_discord_notifications_def payloads_of_def chunk_lines_def Let_def
      split: sum.splits prod.splits)

theorem all_clear_when_configured_witness:
  "truthy_str (or_str (or_str None (Some (py ''https://discord.test/hook''))) None)
   \<and> post_calls (send_discord_notifications
        \<lparr>getenv_DISCORD_WEBHOOK_URL = Some (py ''https://discord.test/hook''),
         DEFAULT_DISCORD_WEBHOOK_URL = None, post = (\<lambda>url payload. Inr ())\<rparr>
        (\<lambda>x. []) [] None) = [all_clear]"
proof -
  have h: "truthy_str (or_str (or_str None (getenv_DISCORD_WEBHOOK_URL
        \<lparr>getenv_DISCORD_WEBHOOK_URL = Some (py ''https://discord.test/hook''),
         DEFAULT_DISCORD_WEBHOOK_URL = None, post = (\<lambda>url payload. Inr ())\<rparr>))
        (DEFAULT_DISCORD_WEBHOOK_URL
        \<lparr>getenv_DISCORD_WEBHOOK_URL = Some (py ''https://discord.test/hook''),
         DEFAULT_DISCORD_WEBHOOK_URL = None, post = (\<lambda>url payload. Inr ())\<rparr>))"
    by (simp add: or_str_def truthy_str_def py_def)
  from h all_clear_when_configured [OF h, of "\<lambda>x. []"] show ?thesis
    by simp
qed

section \<open>The collector\<close>

lemma request_json_error: "request_json http url = Inl e \<Longrightarrow> e = RuntimeError"
  by (auto simp: request_json_def split: sum.splits)

lemma pages_loop_result:
  "pages_loop http url out = Some y \<Longrightarrow> \<forall>e. y = Inl e \<longrightarrow> e = RuntimeError"
proof (erule pages_loop.raw_induct [rotated])
  fix loop :: "(pystr \<Rightarrow> py_error + ('a body \<times> pystr option)) \<Rightarrow> pystr option \<Rightarrow> 'a list
     \<Rightarrow> (py_error + 'a list) option"
  fix h u out r
  assume ih: "\<And>h u out r. loop h u out = Some r \<Longrightarrow> \<forall>e. r = Inl e \<longrightarrow> e = RuntimeError"
    and eq: "(if truthy_str u
      then case request_json h (the u) of Inl e \<Rightarrow> Some (Inl e)
           | Inr r \<Rightarrow> loop h (snd r) (out @ body_items (fst r))
      else Some (Inr out)) = Some r"
  show "\<forall>e. r = Inl e \<longrightarrow> e = RuntimeError"
  proof (cases "truthy_str u")
    case False
    with eq show ?thesis by auto
  next
    case True
    show ?thesis
    proof (cases "request_json h (the u)")
      case (Inl e)
      with True eq show ?thesis by (auto dest: request_json_error)
    next
      case (Inr p)
      with True eq have "loop h (snd p) (out @ body_items (fst p)) = Some r" by simp
      then show ?thesis by (rule ih)
    qed
  qed
qed

lemma pages_loop_error: "pages_loop http url out = Some (Inl e) \<Longrightarrow> e = RuntimeError"
  using pages_loop_result by blast

lemma pages_loop_single:
  assumes "http url = Inr (data, None)" and "url \<noteq> []"
  shows "pages_loop http (Some url) out = Some (Inr (out @ body_items data))"
  apply (subst pages_loop.simps)
  apply (subst pages_loop.simps)
  using assms apply (simp add: truthy_str_def request_json_def)
  done

lemma get_q3_q4_periods_error: "get_q3_q4_periods w i = Inl e \<Longrightarrow> e = RuntimeError"
  by (auto simp: get_q3_q4_periods_def Let_def split: sum.splits dest: request_json_error)

lemma filter_exc_total:
  "(\<And>x. \<exists>b. f x = Inr b) \<Longrightarrow> \<exists>ys. filter_exc f xs = Inr ys"
proof (induction xs)
  case Nil
  show ?case by simp
next
  case (Cons x xs)
  from Cons.prems obtain b where "f x = Inr b" by blast
  moreover from Cons obtain ys where "filter_exc f xs = Inr ys" by blast
  ultimately show ?case by simp
qed

lemma map_exc_records:
  "map_exc (assignment_to_record c) assignments
     = Inr (map (\<lambda>a. projr (assignment_to_record c a)) assignments)"
proof (induction assignments)
  case Nil
  show ?case by simp
next
  case (Cons a assignments)
  obtain r where "assignment_to_record c a = Inr r"
    using assignment_to_record_total by blast
  with Cons show ?case by simp
qed

lemma get_assignments_error:
  assumes "get_assignments w i = Some (Inl e)"
  shows "e = RuntimeError"
proof (cases "get_q3_q4_periods w i")
  case (Inl x)
  with assms show ?thesis
    by (auto simp: get_assignments_def get_q3_q4_period_ids_def dest: get_q3_q4_periods_error)
next
  case (Inr ps)
  define ids where "ids = map (\<lambda>p. dict_get (p_id p)) (filter (\<lambda>p. p_id p \<noteq> Absent) ps)"
  define ranges where "ranges = ranges_loop (w_isoparse w) ps []"
  define url where "url = w_CANVAS_BASE w @ py ''/api/v1/courses/'' @ str_int i
                            @ py ''/assignments?include[]=submission&per_page=100''"
  have unfold: "get_assignments w i =
      (if ids = [] \<and> ranges = [] then Some (Inr [])
       else (case get_all_pages (w_assignments w) url of
               None \<Rightarrow> None
             | Some (Inl e) \<Rightarrow> Some (Inl e)
             | Some (Inr pages) \<Rightarrow>
                 Some (filter_exc
                        (\<lambda>a. should_include_assignment (w_isoparse w) a
                               (set (List.map_filter (\<lambda>i. i) ids)) ranges
                               default_low_score_threshold_percent) pages)))"
    unfolding ids_def ranges_def url_def using Inr
    by (simp add: get_assignments_def get_q3_q4_period_ids_def get_q3_q4_date_ranges_def)
  show ?thesis
  proof (cases "ids = [] \<and> ranges = []")
    case True
    with assms unfold show ?thesis by simp
  next
    case False
    show ?thesis
    proof (cases "get_all_pages (w_assignments w) url")
      case None
      with assms unfold False show ?thesis by simp
    next
      case (Some res)
      show ?thesis
      proof (cases res)
        case (Inl x)
        with Some assms unfold False have "x = e" by simp
        with Inl Some show ?thesis
          by (auto simp: get_all_pages_def dest: pages_loop_error)
      next
        case (Inr pages)
        obtain ys where "filter_exc
                        (\<lambda>a. should_include_assignment (w_isoparse w) a
                               (set (List.map_filter (\<lambda>i. i) ids)) ranges
                               default_low_score_threshold_percent) pages = Inr ys"
          using filter_exc_total [of "\<lambda>a. should_include_assignment (w_isoparse w) a
                               (set (List.map_filter (\<lambda>i. i) ids)) ranges
                               default_low_score_threshold_percent" pages]
            should_include_assignment_total by blast
        with Inr Some assms unfold False show ?thesis by simp
      qed
    qed
  qed
qed

lemma collect_loop_closed:
  assumes "\<forall>c \<in> set cs. get_assignments w (c_id c) \<noteq> None"
  shows "collect_loop w cs results
           = Some (Inr (results @ concat (map (spec_course_records w) cs)))"
  using assms
proof (induction cs arbitrary: results)
  case Nil
  show ?case by simp
next
  case (Cons c cs)
  from Cons.prems obtain res where res: "get_assignments w (c_id c) = Some res" by auto
  from Cons have ih: "\<And>rs. collect_loop w cs rs
           = Some (Inr (rs @ concat (map (spec_course_records w) cs)))" by simp
  show ?case
  proof (cases res)
    case (Inl e)
    with res have e: "e = RuntimeError" by (auto dest: get_assignments_error)
    from Inl res have "spec_course_records w c = []"
      by (simp add: spec_course_records_def)
    with e Inl res ih show ?thesis by simp
  next
    case (Inr assignments)
    with res have "spec_course_records w c
        = map (\<lambda>a. projr (assignment_to_record c a)) assignments"
      by (simp add: spec_course_records_def)
    with Inr res ih show ?thesis by (simp add: map_exc_records)
  qed
qed

lemma str_int_1_2: "str_int 1 = py ''1''" "str_int 2 = py ''2''"
  by (simp_all add: str_int_def str_nat.simps py_def)

lemma test_world_course_1: "get_assignments test_world 1 = Some (Inl RuntimeError)"
  by (simp add: get_assignments_def get_q3_q4_period_ids_def get_q3_q4_periods_def
      request_json_def test_world_def str_int_1_2 py_def)

lemma test_world_q3: "is_q3_q4 (\<lambda>s. s) (Some (py ''Q3''))"
  by (simp add: is_q3_q4_def or_str_def truthy_str_def q3_q4_keywords_def py_def)

lemma test_world_course_2: "get_assignments test_world 2 = Some (Inr [test_assignment])"
proof -
  have p: "get_q3_q4_periods test_world 2
      = Inr [\<lparr>p_id = Val 1, p_title = Val (py ''Q3''), p_start_date = Absent,
               p_end_date = Absent\<rparr>]"
    using test_world_q3
    by (simp add: get_q3_q4_periods_def request_json_def test_world_def str_int_1_2
        dict_get_def)
      (simp add: py_def)
  have f: "get_all_pages (w_assignments test_world)
             (w_CANVAS_BASE test_world @ py ''/api/v1/courses/'' @ str_int 2
                @ py ''/assignments?include[]=submission&per_page=100'')
         = Some (Inr [test_assignment])"
    unfolding get_all_pages_def
    by (subst pages_loop_single [where data = "JList [test_assignment]"])
      (simp_all add: test_world_def str_int_1_2 py_def body_items_def)
  show ?thesis
    by (simp add: get_assignments_def get_q3_q4_period_ids_def get_q3_q4_date_ranges_def p f
        dict_get_def should_include_assignment_def belongs_def
        submission_or_empty_def truthy_bool_def no_keys_def test_assignment_def)
qed

text \<open>
  C8. Provided the fetch of every course comes to an end (it returns or raises), the loop
  over the courses returns, in course order, the records of the courses whose assignments
  were fetched: a course whose fetch or filter raises does so with \<open>RuntimeError\<close>, which
  is swallowed, contributes no record and leaves the records of the other courses as they
  are. So does \<open>collect_results\<close> on the courses it fetched.
\<close>

theorem failed_course_skipped:
  assumes "\<forall>c \<in> set cs. get_assignments w (c_id c) \<noteq> None"
  shows "collect_loop w cs results
           = Some (Inr (results @ concat (map (spec_course_records w) cs)))
       \<and> (\<forall>c e. get_assignments w (c_id c) = Some (Inl e) \<longrightarrow>
             e = RuntimeError \<and> spec_course_records w c = [])
       \<and> (get_courses w = Some (Inr cs) \<longrightarrow>
             collect_results w = Some (Inr (concat (map (spec_course_records w) cs))))"
proof (intro conjI allI impI)
  show l: "collect_loop w cs results
           = Some (Inr (results @ concat (map (spec_course_records w) cs)))" for results
    using assms by (rule collect_loop_closed)
  show "e = RuntimeError" if "get_assignments w (c_id c) = Some (Inl e)" for c :: course and e
    using that by (rule get_assignments_error)
  show "spec_course_records w c = []" if "get_assignments w (c_id c) = Some (Inl e)" for c e
    using that by (simp add: spec_course_records_def)
  show "collect_results w = Some (Inr (concat (map (spec_course_records w) cs)))"
    if "get_courses w = Some (Inr cs)"
    using that l [of "[]"] by (simp add: collect_results_def)
qed

theorem failed_course_skipped_witness:
  "get_assignments test_world 1 = Some (Inl RuntimeError)
   \<and> collect_loop test_world
        [\<lparr>c_id = 1, c_name = Val (py ''Art'')\<rparr>, \<lparr>c_id = 2, c_name = Val (py ''Biology'')\<rparr>] []
      = Some (Inr (spec_course_records test_world \<lparr>c_id = 2, c_name = Val (py ''Biology'')\<rparr>))
   \<and> length (spec_course_records test_world \<lparr>c_id = 2, c_name = Val (py ''Biology'')\<rparr>) = 1"
proof -
  let ?c1 = "\<lparr>c_id = 1, c_name = Val (py ''Art'')\<rparr>"
  let ?c2 = "\<lparr>c_id = 2, c_name = Val (py ''Biology'')\<rparr>"
  have t: "\<forall>c \<in> set [?c1, ?c2]. get_assignments test_world (c_id c) \<noteq> None"
    by (simp add: test_world_course_1 test_world_course_2)
  have s1: "spec_course_records test_world ?c1 = []"
    by (simp add: spec_course_records_def test_world_course_1)
  have s2: "length (spec_course_records test_world ?c2) = 1"
    by (simp add: spec_course_records_def test_world_course_2)
  from failed_course_skipped [OF t, of "[]"] s1
  have "collect_loop test_world [?c1, ?c2] [] = Some (Inr (spec_course_records test_world ?c2))"
    by simp
  with test_world_course_1 s2 show ?thesis by blast
qed

section \<open>The two scripts\<close>

text \<open>
  C9. The filter of canvas\_test.py and the condition of \<open>find_bad_assignments\<close> differ:
  an assignment of the window scoring exactly 50 percent is included by the first (at most
  50) and not by the second (below 50); one with a score of 10 and no \<open>points_possible\<close> is
  left out by the first and taken by the second (10 of the default 100); one with no score
  is left out by the first and taken by the second (0 percent).
\<close>

theorem scripts_disagree:
  "should_include_assignment test_isoparse
     (no_keys\<lparr>a_grading_period_id := Val 1, a_points_possible := Val (PyInt 10),
              a_submission := Val \<lparr>s_missing = Val False, s_late = Absent, s_score = Val (PyInt 5)\<rparr>\<rparr>)
     test_period_ids test_ranges default_low_score_threshold_percent = Inr True
   \<and> find_bad_condition
     (no_keys\<lparr>a_grading_period_id := Val 1, a_points_possible := Val (PyInt 10),
              a_submission := Val \<lparr>s_missing = Val False, s_late = Absent, s_score = Val (PyInt 5)\<rparr>\<rparr>)
     = Inr False
   \<and> should_include_assignment test_isoparse
     (no_keys\<lparr>a_grading_period_id := Val 1,
              a_submission := Val \<lparr>s_missing = Val False, s_late = Absent, s_score = Val (PyInt 10)\<rparr>\<rparr>)
     test_period_ids test_ranges default_low_score_threshold_percent = Inr False
   \<and> find_bad_condition
     (no_keys\<lparr>a_grading_period_id := Val 1,
              a_submission := Val \<lparr>s_missing = Val False, s_late = Absent, s_score = Val (PyInt 10)\<rparr>\<rparr>)
     = Inr True
   \<and> should_include_assignment test_isoparse
     (no_keys\<lparr>a_grading_period_id := Val 1, a_points_possible := Val (PyInt 10),
              a_submission := Val \<lparr>s_missing = Val False, s_late = Absent, s_score = Null\<rparr>\<rparr>)
     test_period_ids test_ranges default_low_score_threshold_percent = Inr False
   \<and> find_bad_condition
     (no_keys\<lparr>a_grading_period_id := Val 1, a_points_possible := Val (PyInt 10),
              a_submission := Val \<lparr>s_missing = Val False, s_late = Absent, s_score = Null\<rparr>\<rparr>)
     = Inr True"
  by (simp add: should_include_assignment_def find_bad_condition_def belongs_def
      submission_or_empty_def truthy_submission_def empty_submission_def no_keys_def
      dict_get_def dict_get_default_def truthy_bool_def truthy_num_def percentage_5_10
      percentage_10_100 py_le_def py_lt_def exact_def test_period_ids_def
      default_low_score_threshold_percent_def Let_def)

end
